theory Spec2Isabelle
  imports Complex_Main
begin

section \<open>Bond pricer: data model\<close>

text \<open>
  The C program \<^verbatim>\<open>bond_pricer.c\<close> prices a fixed-coupon bond. The calculator is
  modelled twice. In exact real arithmetic a \<^verbatim>\<open>double\<close> is a \<^typ>\<open>real\<close>, no
  rounding, overflow or underflow happens, and a division whose divisor is zero (which
  produces an infinity or a NaN in C) has no real result and is the value \<open>None\<close>: this
  is the arithmetic of the pricing formulas. In IEEE 754 arithmetic a \<^verbatim>\<open>double\<close> is a
  real number, an infinity or NaN, and every operation rounds to binary64: this is the
  arithmetic of the machine. The \<^verbatim>\<open>int\<close> fields are \<^typ>\<open>int\<close>; under the
  documented preconditions every integer the calculator forms is at most \<open>1201 * 1202\<close>,
  far inside the 32-bit range.

  The records are polymorphic in the type of their \<^verbatim>\<open>double\<close> fields.
\<close>

record 'd BondParams =
  face_value :: 'd
  coupon_rate :: 'd
  ytm :: 'd
  periods :: int
  frequency :: int

record 'd BondMetrics =
  price :: 'd
  macaulay_duration :: 'd
  modified_duration :: 'd
  convexity :: 'd
  dv01 :: 'd
  yield_to_maturity :: 'd

section \<open>The calculator in exact arithmetic\<close>

text \<open>Division of two real numbers, defined when the divisor is not zero.\<close>

definition fdiv :: "real \<Rightarrow> real \<Rightarrow> real option" where
  "fdiv a b = (if b = 0 then None else Some (a / b))"

text \<open>
  The loop of \<^verbatim>\<open>calculate_bond_metrics\<close> (lines 54 to 64): the loop variable \<open>t\<close>
  and the four variables the body updates are arguments; the loop returns the three
  accumulators.
\<close>

function bond_loop ::
  "real \<Rightarrow> real \<Rightarrow> real \<Rightarrow> int \<Rightarrow> int \<Rightarrow> real \<Rightarrow> real \<Rightarrow> real \<Rightarrow> real \<Rightarrow> real \<times> real \<times> real"
where
  "bond_loop fv coupon_pmt discount n t price_acc weighted_pv convexity_sum pv_factor =
     (if t \<le> n then
        (let cf = (if t = n then coupon_pmt + fv else coupon_pmt);
             pv = cf * pv_factor
         in bond_loop fv coupon_pmt discount n (t + 1)
              (price_acc + pv)
              (weighted_pv + of_int t * pv)
              (convexity_sum + of_int (t * (t + 1)) * pv)
              (pv_factor * discount))
      else (price_acc, weighted_pv, convexity_sum))"
  by pat_completeness auto
termination
  by (relation "measure (\<lambda>(fv, coupon_pmt, discount, n, t, rest). nat (n + 1 - t))") auto

declare bond_loop.simps [simp del]

definition calculate_bond_metrics :: "real BondParams \<Rightarrow> real BondMetrics option" where
  "calculate_bond_metrics params =
     (let fv = face_value params in
      case fdiv (coupon_rate params) (of_int (frequency params)) of None \<Rightarrow> None | Some c \<Rightarrow>
      case fdiv (ytm params) (of_int (frequency params)) of None \<Rightarrow> None | Some y \<Rightarrow>
      let n = periods params * frequency params;
          coupon_pmt = fv * c
      in
      case fdiv 1 (1 + y) of None \<Rightarrow> None | Some discount \<Rightarrow>
      case bond_loop fv coupon_pmt discount n 1 0 0 0 discount of
        (price_acc, weighted_pv, convexity_sum) \<Rightarrow>
      case fdiv weighted_pv (price_acc * of_int (frequency params)) of None \<Rightarrow> None
      | Some macaulay \<Rightarrow>
      case fdiv (ytm params) (of_int (frequency params)) of None \<Rightarrow> None | Some y2 \<Rightarrow>
      case fdiv macaulay (1 + y2) of None \<Rightarrow> None | Some modified \<Rightarrow>
      case fdiv convexity_sum
             (price_acc * of_int (frequency params) * of_int (frequency params)
                * (1 + y) * (1 + y)) of None \<Rightarrow> None
      | Some conv \<Rightarrow>
      case fdiv (modified * price_acc) 10000 of None \<Rightarrow> None | Some dv \<Rightarrow>
      Some \<lparr>price = price_acc,
            macaulay_duration = macaulay,
            modified_duration = modified,
            convexity = conv,
            dv01 = dv,
            yield_to_maturity = ytm params\<rparr>)"

text \<open>
  The preconditions the caller must establish (the ranges that \<^verbatim>\<open>parse_arguments\<close>
  tests).
\<close>

definition valid_params :: "real BondParams \<Rightarrow> bool" where
  "valid_params p \<longleftrightarrow>
     0 < face_value p \<and> 0 \<le> coupon_rate p \<and> coupon_rate p \<le> 1 \<and> 0 \<le> ytm p \<and>
     1 \<le> periods p \<and> periods p \<le> 100 \<and>
     (frequency p = 1 \<or> frequency p = 2 \<or> frequency p = 4 \<or> frequency p = 12)"

section \<open>The sums by direct exponentiation\<close>

text \<open>
  The cash flow of period \<open>t\<close> and the three sums in which the cash flow of period \<open>t\<close>
  is discounted by \<open>discount ^ t\<close>, computed afresh for every period.
\<close>

definition cash_flow :: "real \<Rightarrow> real \<Rightarrow> int \<Rightarrow> int \<Rightarrow> real" where
  "cash_flow fv coupon_pmt n t = (if t = n then coupon_pmt + fv else coupon_pmt)"

definition direct_price :: "real \<Rightarrow> real \<Rightarrow> real \<Rightarrow> int \<Rightarrow> real" where
  "direct_price fv coupon_pmt discount n =
     (\<Sum>t\<leftarrow>[1..n]. cash_flow fv coupon_pmt n t * discount ^ nat t)"

definition direct_weighted_pv :: "real \<Rightarrow> real \<Rightarrow> real \<Rightarrow> int \<Rightarrow> real" where
  "direct_weighted_pv fv coupon_pmt discount n =
     (\<Sum>t\<leftarrow>[1..n]. of_int t * (cash_flow fv coupon_pmt n t * discount ^ nat t))"

definition direct_convexity_sum :: "real \<Rightarrow> real \<Rightarrow> real \<Rightarrow> int \<Rightarrow> real" where
  "direct_convexity_sum fv coupon_pmt discount n =
     (\<Sum>t\<leftarrow>[1..n]. of_int (t * (t + 1)) * (cash_flow fv coupon_pmt n t * discount ^ nat t))"

text \<open>A sum of weighted powers, \<open>h 1 * d + h 2 * d\<^sup>2 + \<dots> + h n * d\<^sup>n\<close>.\<close>

definition weighted_powers :: "(int \<Rightarrow> real) \<Rightarrow> real \<Rightarrow> int \<Rightarrow> real" where
  "weighted_powers h d n = (\<Sum>k\<leftarrow>[1..n]. h k * d ^ nat k)"

text \<open>
  The quantities \<^verbatim>\<open>c\<close>, \<^verbatim>\<open>y\<close>, \<^verbatim>\<open>n\<close> and \<^verbatim>\<open>discount\<close> of lines 40 to 51, as
  functions of the parameters, and the three direct sums at these quantities.
\<close>

definition period_coupon :: "real BondParams \<Rightarrow> real" where
  "period_coupon p = coupon_rate p / of_int (frequency p)"

definition period_yield :: "real BondParams \<Rightarrow> real" where
  "period_yield p = ytm p / of_int (frequency p)"

definition payments :: "real BondParams \<Rightarrow> int" where
  "payments p = periods p * frequency p"

definition discount_of :: "real BondParams \<Rightarrow> real" where
  "discount_of p = 1 / (1 + period_yield p)"

definition price_sum :: "real BondParams \<Rightarrow> real" where
  "price_sum p =
     direct_price (face_value p) (face_value p * period_coupon p) (discount_of p) (payments p)"

definition weighted_sum :: "real BondParams \<Rightarrow> real" where
  "weighted_sum p =
     direct_weighted_pv (face_value p) (face_value p * period_coupon p) (discount_of p) (payments p)"

definition convexity_sum_of :: "real BondParams \<Rightarrow> real" where
  "convexity_sum_of p =
     direct_convexity_sum (face_value p) (face_value p * period_coupon p) (discount_of p) (payments p)"

section \<open>The machine's doubles\<close>

text \<open>
  A \<^verbatim>\<open>double\<close> of the machine: a real number, an infinity or NaN. A comparison with
  NaN is false (IEEE 754).
\<close>

datatype double = Finite real | PInf | NInf | NaN

fun dlt :: "double \<Rightarrow> double \<Rightarrow> bool" where
  "dlt NaN _ = False"
| "dlt _ NaN = False"
| "dlt (Finite a) (Finite b) = (a < b)"
| "dlt _ NInf = False"
| "dlt NInf _ = True"
| "dlt PInf _ = False"
| "dlt _ PInf = True"

fun dle :: "double \<Rightarrow> double \<Rightarrow> bool" where
  "dle NaN _ = False"
| "dle _ NaN = False"
| "dle (Finite a) (Finite b) = (a \<le> b)"
| "dle NInf _ = True"
| "dle _ PInf = True"
| "dle _ NInf = False"
| "dle PInf _ = False"

subsection \<open>IEEE 754 arithmetic and the calculator in it\<close>

text \<open>
  The \<^verbatim>\<open>double\<close> of the machine: IEEE 754 binary64 with rounding to nearest, ties to
  even, every operation rounded to \<^verbatim>\<open>double\<close> (\<^verbatim>\<open>FLT_EVAL_METHOD\<close> 0, as on x86-64
  and AArch64). A finite \<^verbatim>\<open>double\<close> is \<open>m * 2 ^ q\<close> with \<open>\<bar>m\<bar> < 2 ^ 53\<close> and
  \<open>- 1074 \<le> q \<le> 971\<close>. \<open>expo x\<close> is the binary exponent of \<open>x\<close>, kept between
  \<open>- 1022\<close> (the subnormal range) and \<open>1023\<close>; \<open>rnd x\<close> rounds \<open>x\<close> to a multiple of
  \<open>2 ^ (expo x - 52)\<close> and overflows to an infinity from \<open>2 ^ 1024\<close> on. The sign of zero
  is not modelled (a division by zero takes the zero as positive).
\<close>

function expo_from :: "real \<Rightarrow> int \<Rightarrow> int" where
  "expo_from a e =
     (if e \<le> - 1022 then - 1022 else if 2 powi e \<le> a then e else expo_from a (e - 1))"
  by pat_completeness auto
termination
  by (relation "measure (\<lambda>(a, e). nat (e + 1022))") auto

declare expo_from.simps [simp del]

definition expo :: "real \<Rightarrow> int" where
  "expo x = expo_from \<bar>x\<bar> 1023"

definition round_even :: "real \<Rightarrow> int" where
  "round_even z =
     (let f = \<lfloor>z\<rfloor> in
      if z - of_int f < 1 / 2 then f
      else if 1 / 2 < z - of_int f then f + 1
      else if even f then f else f + 1)"

definition rnd :: "real \<Rightarrow> double" where
  "rnd x =
     (let q = 2 powi (expo x - 52);
          r = of_int (round_even (x / q)) * q
      in if 2 ^ 1024 \<le> \<bar>r\<bar> then (if 0 < x then PInf else NInf) else Finite r)"

fun dadd :: "double \<Rightarrow> double \<Rightarrow> double" where
  "dadd (Finite a) (Finite b) = rnd (a + b)"
| "dadd NaN _ = NaN"
| "dadd _ NaN = NaN"
| "dadd PInf NInf = NaN"
| "dadd NInf PInf = NaN"
| "dadd PInf _ = PInf"
| "dadd _ PInf = PInf"
| "dadd NInf _ = NInf"
| "dadd _ NInf = NInf"

text \<open>An infinity (negative when \<open>neg\<close>) times or divided by a finite number.\<close>

definition signed_inf :: "bool \<Rightarrow> double" where
  "signed_inf neg = (if neg then NInf else PInf)"

fun dmul :: "double \<Rightarrow> double \<Rightarrow> double" where
  "dmul (Finite a) (Finite b) = rnd (a * b)"
| "dmul NaN _ = NaN"
| "dmul _ NaN = NaN"
| "dmul PInf (Finite b) = (if b = 0 then NaN else signed_inf (b < 0))"
| "dmul NInf (Finite b) = (if b = 0 then NaN else signed_inf (0 < b))"
| "dmul (Finite a) PInf = (if a = 0 then NaN else signed_inf (a < 0))"
| "dmul (Finite a) NInf = (if a = 0 then NaN else signed_inf (0 < a))"
| "dmul PInf PInf = PInf"
| "dmul NInf NInf = PInf"
| "dmul PInf NInf = NInf"
| "dmul NInf PInf = NInf"

fun ddiv :: "double \<Rightarrow> double \<Rightarrow> double" where
  "ddiv (Finite a) (Finite b) =
     (if b = 0 then (if a = 0 then NaN else signed_inf (a < 0)) else rnd (a / b))"
| "ddiv NaN _ = NaN"
| "ddiv _ NaN = NaN"
| "ddiv (Finite a) PInf = Finite 0"
| "ddiv (Finite a) NInf = Finite 0"
| "ddiv PInf (Finite b) = signed_inf (b < 0)"
| "ddiv NInf (Finite b) = signed_inf (0 \<le> b)"
| "ddiv PInf PInf = NaN"
| "ddiv PInf NInf = NaN"
| "ddiv NInf PInf = NaN"
| "ddiv NInf NInf = NaN"

text \<open>The conversion of an \<^verbatim>\<open>int\<close> to \<^verbatim>\<open>double\<close>.\<close>

definition d_of_int :: "int \<Rightarrow> double" where
  "d_of_int i = rnd (of_int i)"

text \<open>
  The loop and \<^verbatim>\<open>calculate_bond_metrics\<close> once more, operation by operation in this
  arithmetic.
\<close>

function bond_loop_ieee ::
  "double \<Rightarrow> double \<Rightarrow> double \<Rightarrow> int \<Rightarrow> int \<Rightarrow> double \<Rightarrow> double \<Rightarrow> double \<Rightarrow> double
     \<Rightarrow> double \<times> double \<times> double"
where
  "bond_loop_ieee fv coupon_pmt discount n t price_acc weighted_pv convexity_sum pv_factor =
     (if t \<le> n then
        (let cf = (if t = n then dadd coupon_pmt fv else coupon_pmt);
             pv = dmul cf pv_factor
         in bond_loop_ieee fv coupon_pmt discount n (t + 1)
              (dadd price_acc pv)
              (dadd weighted_pv (dmul (d_of_int t) pv))
              (dadd convexity_sum (dmul (d_of_int (t * (t + 1))) pv))
              (dmul pv_factor discount))
      else (price_acc, weighted_pv, convexity_sum))"
  by pat_completeness auto
termination
  by (relation "measure (\<lambda>(fv, coupon_pmt, discount, n, t, rest). nat (n + 1 - t))") auto

declare bond_loop_ieee.simps [simp del]

definition calculate_bond_metrics_ieee :: "double BondParams \<Rightarrow> double BondMetrics" where
  "calculate_bond_metrics_ieee params =
     (let fv = face_value params;
          c = ddiv (coupon_rate params) (d_of_int (frequency params));
          y = ddiv (ytm params) (d_of_int (frequency params));
          n = periods params * frequency params;
          coupon_pmt = dmul fv c;
          discount = ddiv (Finite 1) (dadd (Finite 1) y)
      in case bond_loop_ieee fv coupon_pmt discount n 1 (Finite 0) (Finite 0) (Finite 0) discount of
        (price_acc, weighted_pv, convexity_sum) \<Rightarrow>
      let macaulay = ddiv weighted_pv (dmul price_acc (d_of_int (frequency params)));
          modified =
            ddiv macaulay (dadd (Finite 1) (ddiv (ytm params) (d_of_int (frequency params))))
      in \<lparr>price = price_acc,
          macaulay_duration = macaulay,
          modified_duration = modified,
          convexity =
            ddiv convexity_sum
              (dmul (dmul (dmul (dmul price_acc (d_of_int (frequency params)))
                             (d_of_int (frequency params)))
                       (dadd (Finite 1) y))
                 (dadd (Finite 1) y)),
          dv01 = ddiv (dmul modified price_acc) (Finite 10000),
          yield_to_maturity = ytm params\<rparr>)"

text \<open>
  The preconditions on parameters in this arithmetic: the three \<^verbatim>\<open>double\<close> fields are
  real numbers, and the parameters satisfy \<open>valid_params\<close>.
\<close>

definition valid_params_ieee :: "double BondParams \<Rightarrow> bool" where
  "valid_params_ieee p =
     (case (face_value p, coupon_rate p, ytm p) of
        (Finite fv, Finite cr, Finite y) \<Rightarrow>
          valid_params \<lparr>face_value = fv, coupon_rate = cr, ytm = y, periods = periods p,
            frequency = frequency p\<rparr>
      | _ \<Rightarrow> False)"

text \<open>
  The discount factor \<open>1 / 2\<close> halved again and again: after \<open>t\<close> factors it is
  \<open>2 ^ - t\<close> down to the least positive \<^verbatim>\<open>double\<close> \<open>2 ^ - 1074\<close>; half of that lies
  midway between 0 and \<open>2 ^ - 1074\<close> and rounds to the even neighbour 0, where it stays.
\<close>

definition halved :: "int \<Rightarrow> real" where
  "halved t = (if t \<le> 1074 then 2 powi (- t) else 0)"

section \<open>The command line\<close>

text \<open>
  What a call \<^verbatim>\<open>strtod(s, &endptr)\<close> or \<^verbatim>\<open>strtol(s, &endptr, 10)\<close> leaves behind:
  the value returned, the rest of the string that \<^verbatim>\<open>endptr\<close> points to, and
  \<^verbatim>\<open>errno\<close> (set to 0 before the call).
\<close>

record 'v conversion =
  conv_value :: 'v
  conv_rest :: string
  conv_errno :: int

definition ERANGE :: int where
  "ERANGE = 34"

definition is_space :: "char \<Rightarrow> bool" where
  "is_space c \<longleftrightarrow> c \<in> set [CHR '' '', CHR 0x09, CHR 0x0A, CHR 0x0B, CHR 0x0C, CHR 0x0D]"

definition is_digit :: "char \<Rightarrow> bool" where
  "is_digit c \<longleftrightarrow> c \<in> set ''0123456789''"

definition digit_value :: "char \<Rightarrow> nat" where
  "digit_value c = of_char c - 48"

definition digits_value :: "string \<Rightarrow> nat" where
  "digits_value ds = foldl (\<lambda>acc c. 10 * acc + digit_value c) 0 ds"

definition to_lower :: "char \<Rightarrow> char" where
  "to_lower c =
     (case map_of (zip ''ABCDEFGHIJKLMNOPQRSTUVWXYZ'' ''abcdefghijklmnopqrstuvwxyz'') c of
        Some l \<Rightarrow> l
      | None \<Rightarrow> c)"

text \<open>An optional sign: whether it is a minus, and the rest.\<close>

fun take_sign :: "string \<Rightarrow> bool \<times> string" where
  "take_sign [] = (False, [])"
| "take_sign (c # cs) =
     (if c = CHR ''-'' then (True, cs) else if c = CHR ''+'' then (False, cs)
      else (False, c # cs))"

text \<open>
  The C library's \<^verbatim>\<open>strtol\<close> in base 10 (ISO C 7.22.1.4), for a 64-bit \<^verbatim>\<open>long\<close>:
  white space, an optional sign, decimal digits. With no digit there is no conversion:
  the value is 0, \<^verbatim>\<open>endptr\<close> is the start of the string and \<^verbatim>\<open>errno\<close> is
  untouched. A value out of range is clamped and \<^verbatim>\<open>errno\<close> is \<^verbatim>\<open>ERANGE\<close>.
\<close>

definition LONG_MAX :: int where
  "LONG_MAX = 2 ^ 63 - 1"

definition LONG_MIN :: int where
  "LONG_MIN = - (2 ^ 63)"

definition libc_strtol :: "string \<Rightarrow> int conversion" where
  "libc_strtol s =
     (case take_sign (dropWhile is_space s) of (neg, s2) \<Rightarrow>
      let ds = takeWhile is_digit s2;
          rest = dropWhile is_digit s2;
          v = (if neg then - int (digits_value ds) else int (digits_value ds))
      in if ds = [] then \<lparr>conv_value = 0, conv_rest = s, conv_errno = 0\<rparr>
         else if LONG_MAX < v then \<lparr>conv_value = LONG_MAX, conv_rest = rest, conv_errno = ERANGE\<rparr>
         else if v < LONG_MIN then \<lparr>conv_value = LONG_MIN, conv_rest = rest, conv_errno = ERANGE\<rparr>
         else \<lparr>conv_value = v, conv_rest = rest, conv_errno = 0\<rparr>)"

text \<open>
  The C library's \<^verbatim>\<open>strtod\<close> (ISO C 7.22.1.3): white space, an optional sign, then
  \<^verbatim>\<open>inf\<close> or \<^verbatim>\<open>infinity\<close>, or \<^verbatim>\<open>nan\<close> with an optional parenthesised sequence
  (all three in any case of letters), or \<^verbatim>\<open>0x\<close> and hexadecimal digits with an optional
  point and an optional binary exponent, or decimal digits with an optional point and an
  optional decimal exponent. With no such prefix there is no conversion: the value is 0,
  \<^verbatim>\<open>endptr\<close> is the start of the string and \<^verbatim>\<open>errno\<close> is untouched. The value is
  rounded to the nearest \<^verbatim>\<open>double\<close>; \<^verbatim>\<open>errno\<close> is \<^verbatim>\<open>ERANGE\<close> when the result
  overflows to an infinity and when the result is below \<^verbatim>\<open>DBL_MIN\<close> and not exact. The
  sign of zero is not modelled.
\<close>

definition DBL_MIN :: real where
  "DBL_MIN = 1 / 2 ^ 1022"

definition is_nchar :: "char \<Rightarrow> bool" where
  "is_nchar c \<longleftrightarrow>
     is_digit c \<or> c \<in> set ''abcdefghijklmnopqrstuvwxyzABCDEFGHIJKLMNOPQRSTUVWXYZ_''"

fun nan_rest :: "string \<Rightarrow> string" where
  "nan_rest [] = []"
| "nan_rest (c # cs) =
     (if c = CHR ''('' then
        (case dropWhile is_nchar cs of
           [] \<Rightarrow> c # cs
         | e # r \<Rightarrow> if e = CHR '')'' then r else c # cs)
      else c # cs)"

definition is_xdigit :: "char \<Rightarrow> bool" where
  "is_xdigit c \<longleftrightarrow> c \<in> set ''0123456789abcdefABCDEF''"

definition xdigit_value :: "char \<Rightarrow> nat" where
  "xdigit_value c =
     (case map_of (zip ''0123456789abcdefABCDEF''
             [0, 1, 2, 3, 4, 5, 6, 7, 8, 9, 10, 11, 12, 13, 14, 15, 10, 11, 12, 13, 14, 15]) c of
        Some v \<Rightarrow> v
      | None \<Rightarrow> 0)"

definition xdigits_value :: "string \<Rightarrow> nat" where
  "xdigits_value ds = foldl (\<lambda>acc c. 16 * acc + xdigit_value c) 0 ds"

text \<open>
  The fractional part after the integer digits, for the digits that \<open>isd\<close> accepts: its
  digits and the rest.
\<close>

fun take_fraction :: "(char \<Rightarrow> bool) \<Rightarrow> string \<Rightarrow> string \<times> string" where
  "take_fraction isd [] = ([], [])"
| "take_fraction isd (c # cs) =
     (if c = CHR ''.'' then (takeWhile isd cs, dropWhile isd cs) else ([], c # cs))"

text \<open>
  An exponent part behind the letter \<open>lo\<close> or \<open>up\<close>, taken only when a digit follows: the
  exponent and the rest.
\<close>

fun take_exponent :: "char \<Rightarrow> char \<Rightarrow> string \<Rightarrow> int \<times> string" where
  "take_exponent lo up [] = (0, [])"
| "take_exponent lo up (c # cs) =
     (if c = lo \<or> c = up then
        (case take_sign cs of (eneg, es) \<Rightarrow>
           let ds = takeWhile is_digit es
           in if ds = [] then (0, c # cs)
              else ((if eneg then - int (digits_value ds) else int (digits_value ds)),
                    dropWhile is_digit es))
      else (0, c # cs))"

definition scale10 :: "real \<Rightarrow> int \<Rightarrow> real" where
  "scale10 m k = (if 0 \<le> k then m * 10 ^ nat k else m / 10 ^ nat (- k))"

definition scale2 :: "real \<Rightarrow> int \<Rightarrow> real" where
  "scale2 m k = (if 0 \<le> k then m * 2 ^ nat k else m / 2 ^ nat (- k))"

text \<open>The result for a number of magnitude \<open>m\<close>, negative when \<open>neg\<close>, with \<open>rest\<close> left over.\<close>

definition below_min :: "double \<Rightarrow> bool" where
  "below_min d = (case d of Finite r \<Rightarrow> \<bar>r\<bar> < DBL_MIN | _ \<Rightarrow> False)"

definition converted :: "bool \<Rightarrow> real \<Rightarrow> string \<Rightarrow> double conversion" where
  "converted neg m rest =
     (let v = (if neg then - m else m);
          d = rnd v
      in if d = PInf \<or> d = NInf then
           \<lparr>conv_value = d, conv_rest = rest, conv_errno = ERANGE\<rparr>
         else if below_min d \<and> d \<noteq> Finite v then
           \<lparr>conv_value = d, conv_rest = rest, conv_errno = ERANGE\<rparr>
         else \<lparr>conv_value = d, conv_rest = rest, conv_errno = 0\<rparr>)"

definition libc_strtod :: "string \<Rightarrow> double conversion" where
  "libc_strtod s =
     (case take_sign (dropWhile is_space s) of (neg, s2) \<Rightarrow>
      let low = map to_lower s2 in
      if take 8 low = ''infinity'' then
        \<lparr>conv_value = (if neg then NInf else PInf), conv_rest = drop 8 s2, conv_errno = 0\<rparr>
      else if take 3 low = ''inf'' then
        \<lparr>conv_value = (if neg then NInf else PInf), conv_rest = drop 3 s2, conv_errno = 0\<rparr>
      else if take 3 low = ''nan'' then
        \<lparr>conv_value = NaN, conv_rest = nan_rest (drop 3 s2), conv_errno = 0\<rparr>
      else
        let xip = takeWhile is_xdigit (drop 2 s2) in
        case take_fraction is_xdigit (dropWhile is_xdigit (drop 2 s2)) of (xfp, xr2) \<Rightarrow>
        if take 2 low = ''0x'' \<and> \<not> (xip = [] \<and> xfp = []) then
          case take_exponent CHR ''p'' CHR ''P'' xr2 of (ex, r3) \<Rightarrow>
          converted neg
            (scale2 (real (xdigits_value (xip @ xfp))) (ex - 4 * int (length xfp))) r3
        else
          let ip = takeWhile is_digit s2 in
          case take_fraction is_digit (dropWhile is_digit s2) of (fp, r2) \<Rightarrow>
          if ip = [] \<and> fp = [] then
            \<lparr>conv_value = Finite 0, conv_rest = s, conv_errno = 0\<rparr>
          else
            case take_exponent CHR ''e'' CHR ''E'' r2 of (ex, r3) \<Rightarrow>
            converted neg (scale10 (real (digits_value (ip @ fp))) (ex - int (length fp))) r3)"

text \<open>
  \<^verbatim>\<open>parse_arguments\<close> (lines 76 to 133). The two library functions are parameters.
  \<^verbatim>\<open>argc\<close> is the length of \<^verbatim>\<open>argv\<close>, as the C runtime passes it. The return value 0
  with its message on \<^verbatim>\<open>stderr\<close> is \<open>Inl\<close> of the error; the return value 1 is
  \<open>Inr\<close> of the parameters written through the pointer.
\<close>

datatype parse_error =
  Usage | Invalid_face_value | Invalid_coupon_rate | Invalid_ytm | Invalid_years
  | Invalid_frequency

text \<open>
  The first line of the message of each error, without its line feed; the usage message
  names the program by \<^verbatim>\<open>argv[0]\<close>.
\<close>

definition error_message :: "string \<Rightarrow> parse_error \<Rightarrow> string" where
  "error_message prog e =
     (case e of
        Usage \<Rightarrow> ''Usage: '' @ prog @ '' <face_value> <coupon_rate> <ytm> <years> <frequency>''
      | Invalid_face_value \<Rightarrow> ''Error: Invalid face value. Must be positive number.''
      | Invalid_coupon_rate \<Rightarrow> ''Error: Invalid coupon rate. Must be between 0 and 1.''
      | Invalid_ytm \<Rightarrow> ''Error: Invalid YTM. Must be non-negative.''
      | Invalid_years \<Rightarrow> ''Error: Invalid years to maturity. Must be between 1 and 100.''
      | Invalid_frequency \<Rightarrow> ''Error: Invalid frequency. Must be 1, 2, 4, or 12.'')"

text \<open>The program name \<^verbatim>\<open>argv[0]\<close>, which \<^verbatim>\<open>printf\<close> shows as (null) when it is missing.\<close>

definition program_name :: "string list \<Rightarrow> string" where
  "program_name argv = (case argv of [] \<Rightarrow> ''(null)'' | prog # _ \<Rightarrow> prog)"

definition parse_arguments ::
  "(string \<Rightarrow> double conversion) \<Rightarrow> (string \<Rightarrow> int conversion) \<Rightarrow> string list
     \<Rightarrow> parse_error + double BondParams"
where
  "parse_arguments strtod strtol argv =
     (if length argv \<noteq> 6 then Inl Usage
      else
        let fv = strtod (argv ! 1) in
        if conv_errno fv \<noteq> 0 \<or> conv_rest fv \<noteq> [] \<or> dle (conv_value fv) (Finite 0)
        then Inl Invalid_face_value
        else
        let cr = strtod (argv ! 2) in
        if conv_errno cr \<noteq> 0 \<or> conv_rest cr \<noteq> [] \<or> dlt (conv_value cr) (Finite 0)
           \<or> dlt (Finite 1) (conv_value cr)
        then Inl Invalid_coupon_rate
        else
        let y = strtod (argv ! 3) in
        if conv_errno y \<noteq> 0 \<or> conv_rest y \<noteq> [] \<or> dlt (conv_value y) (Finite 0)
        then Inl Invalid_ytm
        else
        let years = strtol (argv ! 4) in
        if conv_errno years \<noteq> 0 \<or> conv_rest years \<noteq> [] \<or> conv_value years \<le> 0
           \<or> 100 < conv_value years
        then Inl Invalid_years
        else
        let freq = strtol (argv ! 5) in
        if conv_errno freq \<noteq> 0 \<or> conv_rest freq \<noteq> []
           \<or> (conv_value freq \<noteq> 1 \<and> conv_value freq \<noteq> 2 \<and> conv_value freq \<noteq> 4
              \<and> conv_value freq \<noteq> 12)
        then Inl Invalid_frequency
        else Inr \<lparr>face_value = conv_value fv, coupon_rate = conv_value cr, ytm = conv_value y,
                  periods = conv_value years, frequency = conv_value freq\<rparr>)"

text \<open>
  \<^verbatim>\<open>main\<close> (lines 181 to 197), by what the process shows: its exit code, the message
  on \<^verbatim>\<open>stderr\<close>, and, when the calculator runs, the parameters it is called with
  and the metrics it returns, both handed to \<^verbatim>\<open>print_results\<close>.
\<close>

definition EXIT_SUCCESS :: int where
  "EXIT_SUCCESS = 0"

definition EXIT_FAILURE :: int where
  "EXIT_FAILURE = 1"

record outcome =
  exit_code :: int
  stderr_text :: string
  calculated :: "(double BondParams \<times> double BondMetrics) option"

definition main ::
  "(string \<Rightarrow> double conversion) \<Rightarrow> (string \<Rightarrow> int conversion) \<Rightarrow> string list \<Rightarrow> outcome"
where
  "main strtod strtol argv =
     (case parse_arguments strtod strtol argv of
        Inl e \<Rightarrow>
          \<lparr>exit_code = EXIT_FAILURE, stderr_text = error_message (program_name argv) e,
           calculated = None\<rparr>
      | Inr params \<Rightarrow>
          \<lparr>exit_code = EXIT_SUCCESS, stderr_text = [],
           calculated = Some (params, calculate_bond_metrics_ieee params)\<rparr>)"

section \<open>The loop computes the direct sums\<close>

lemma bond_loop_sums:
  "0 \<le> t \<Longrightarrow>
   bond_loop fv cp d n t p w c (q * d ^ nat t) =
     (p + (\<Sum>k\<leftarrow>[t..n]. cash_flow fv cp n k * (q * d ^ nat k)),
      w + (\<Sum>k\<leftarrow>[t..n]. of_int k * (cash_flow fv cp n k * (q * d ^ nat k))),
      c + (\<Sum>k\<leftarrow>[t..n]. of_int (k * (k + 1)) * (cash_flow fv cp n k * (q * d ^ nat k))))"
proof (induction fv cp d n t p w c "q * d ^ nat t" rule: bond_loop.induct)
  case (1 fv cp d n t p w c)
  show ?case
  proof (cases "t \<le> n")
    case False
    then show ?thesis
      by (simp add: bond_loop.simps [of _ _ _ n t])
  next
    case True
    have step: "q * d ^ nat t * d = q * d ^ nat (t + 1)"
      using \<open>0 \<le> t\<close> by (simp add: nat_add_distrib)
    have ih: "bond_loop fv cp d n (t + 1)
        (p + cash_flow fv cp n t * (q * d ^ nat t))
        (w + of_int t * (cash_flow fv cp n t * (q * d ^ nat t)))
        (c + of_int (t * (t + 1)) * (cash_flow fv cp n t * (q * d ^ nat t)))
        (q * d ^ nat (t + 1)) =
      (p + cash_flow fv cp n t * (q * d ^ nat t)
         + (\<Sum>k\<leftarrow>[t + 1..n]. cash_flow fv cp n k * (q * d ^ nat k)),
       w + of_int t * (cash_flow fv cp n t * (q * d ^ nat t))
         + (\<Sum>k\<leftarrow>[t + 1..n]. of_int k * (cash_flow fv cp n k * (q * d ^ nat k))),
       c + of_int (t * (t + 1)) * (cash_flow fv cp n t * (q * d ^ nat t))
         + (\<Sum>k\<leftarrow>[t + 1..n]. of_int (k * (k + 1)) * (cash_flow fv cp n k * (q * d ^ nat k))))"
      using "1.hyps" [OF True refl refl step] \<open>0 \<le> t\<close> by (simp add: cash_flow_def)
    have unf: "[t..n] = t # [t + 1..n]"
      using True by (simp add: upto_rec1)
    show ?thesis
      unfolding bond_loop.simps [of _ _ _ n t _ _ _ "q * d ^ nat t"] unf
      using True ih by (simp add: Let_def cash_flow_def step add.assoc)
  qed
qed

section \<open>Sums of weighted powers\<close>

lemma cash_flow_split:
  assumes "1 \<le> n"
  shows "(\<Sum>k\<leftarrow>[1..n]. h k * (cash_flow fv cp n k * d ^ nat k)) =
         cp * weighted_powers h d n + h n * fv * d ^ nat n"
proof -
  have unf: "[1..n] = [1..n - 1] @ [n]"
    using assms by (simp add: upto_rec2)
  have inner: "map (\<lambda>k. h k * (cash_flow fv cp n k * d ^ nat k)) [1..n - 1] =
               map (\<lambda>k. cp * (h k * d ^ nat k)) [1..n - 1]"
    by (rule map_cong) (auto simp: cash_flow_def)
  have front: "(\<Sum>k\<leftarrow>[1..n - 1]. h k * (cash_flow fv cp n k * d ^ nat k)) =
               cp * (\<Sum>k\<leftarrow>[1..n - 1]. h k * d ^ nat k)"
    unfolding inner by (simp add: sum_list_const_mult)
  have last: "h n * (cash_flow fv cp n n * d ^ nat n) = cp * (h n * d ^ nat n) + h n * fv * d ^ nat n"
    by (simp add: cash_flow_def algebra_simps)
  show ?thesis
    unfolding weighted_powers_def unf
    by (simp add: front last distrib_left)
qed

lemma weighted_powers_nonneg:
  assumes "0 \<le> d" and "\<And>k. 1 \<le> k \<Longrightarrow> 0 \<le> h k"
  shows "0 \<le> weighted_powers h d n"
  unfolding weighted_powers_def
  by (rule sum_list_nonneg) (auto simp: assms)

lemma weighted_powers_pos:
  assumes "0 < d" and "\<And>k. 1 \<le> k \<Longrightarrow> 0 < h k" and "1 \<le> n"
  shows "0 < weighted_powers h d n"
proof -
  have unf: "[1..n] = 1 # [2..n]"
    using assms(3) by (simp add: upto_rec1)
  have "0 \<le> (\<Sum>k\<leftarrow>[2..n]. h k * d ^ nat k)"
    by (rule sum_list_nonneg) (auto simp: assms less_imp_le)
  moreover have "0 < h 1 * d ^ nat 1"
    using assms by simp
  ultimately show ?thesis
    unfolding weighted_powers_def unf by simp
qed

lemma weighted_powers_mono:
  assumes "0 \<le> d1" "d1 \<le> d2" and "\<And>k. 1 \<le> k \<Longrightarrow> 0 \<le> h k"
  shows "weighted_powers h d1 n \<le> weighted_powers h d2 n"
  unfolding weighted_powers_def
  by (rule sum_list_mono) (auto simp: assms power_mono mult_left_mono)

lemma geometric_identity:
  assumes "1 + y \<noteq> 0" and "0 \<le> n"
  shows "y * weighted_powers (\<lambda>_. 1) (1 / (1 + y)) n = 1 - (1 / (1 + y)) ^ nat n"
  using assms(2)
proof (induction n rule: int_ge_induct)
  case base
  show ?case by (simp add: weighted_powers_def)
next
  case (step i)
  have unf: "[1..i + 1] = [1..i] @ [i + 1]"
    using step.hyps by (simp add: upto_rec2)
  have pw: "(1 / (1 + y)) ^ nat (i + 1) = (1 / (1 + y)) ^ nat i * (1 / (1 + y))"
    using step.hyps by (simp add: nat_add_distrib)
  have "y * weighted_powers (\<lambda>_. 1) (1 / (1 + y)) (i + 1) =
        y * weighted_powers (\<lambda>_. 1) (1 / (1 + y)) i + y * (1 / (1 + y)) ^ nat (i + 1)"
    unfolding weighted_powers_def unf by (simp add: algebra_simps)
  also have "\<dots> = 1 - (1 / (1 + y)) ^ nat i + y * (1 / (1 + y)) ^ nat (i + 1)"
    by (simp add: step.IH)
  also have "\<dots> = 1 - (1 / (1 + y)) ^ nat i * (1 - y * (1 / (1 + y)))"
    unfolding pw by (simp add: algebra_simps)
  also have "1 - y * (1 / (1 + y)) = 1 / (1 + y)"
    using assms(1) by (simp add: field_simps)
  finally show ?case
    unfolding pw .
qed

section \<open>The calculator on valid parameters\<close>

lemma bond_loop_direct:
  "bond_loop fv cp d n 1 0 0 0 d =
     (direct_price fv cp d n, direct_weighted_pv fv cp d n, direct_convexity_sum fv cp d n)"
  using bond_loop_sums [of 1 fv cp d n 0 0 0 1]
  by (simp add: direct_price_def direct_weighted_pv_def direct_convexity_sum_def)

lemma valid_frequency_pos: "valid_params p \<Longrightarrow> 0 < frequency p"
  by (auto simp: valid_params_def)

lemma valid_payments: "valid_params p \<Longrightarrow> 1 \<le> payments p"
  unfolding valid_params_def payments_def
  by (elim conjE disjE) simp_all

lemma valid_period_yield: "valid_params p \<Longrightarrow> 0 \<le> period_yield p"
  by (auto simp: valid_params_def period_yield_def)

lemma valid_period_coupon: "valid_params p \<Longrightarrow> 0 \<le> period_coupon p"
  by (auto simp: valid_params_def period_coupon_def)

lemma valid_discount: "valid_params p \<Longrightarrow> 0 < discount_of p \<and> discount_of p \<le> 1"
  using valid_period_yield [of p] by (simp add: discount_of_def)

lemma price_sum_eq:
  assumes "valid_params p"
  shows "price_sum p =
     face_value p * (period_coupon p * weighted_powers (\<lambda>_. 1) (discount_of p) (payments p)
        + discount_of p ^ nat (payments p))"
  using cash_flow_split [OF valid_payments [OF assms], of "\<lambda>_. 1" "face_value p"
      "face_value p * period_coupon p" "discount_of p"]
  by (simp add: price_sum_def direct_price_def algebra_simps)

lemma weighted_sum_eq:
  assumes "valid_params p"
  shows "weighted_sum p =
     face_value p * (period_coupon p * weighted_powers of_int (discount_of p) (payments p)
        + of_int (payments p) * discount_of p ^ nat (payments p))"
  using cash_flow_split [OF valid_payments [OF assms], of of_int "face_value p"
      "face_value p * period_coupon p" "discount_of p"]
  by (simp add: weighted_sum_def direct_weighted_pv_def algebra_simps)

lemma convexity_sum_eq:
  assumes "valid_params p"
  shows "convexity_sum_of p =
     face_value p * (period_coupon p * weighted_powers (\<lambda>k. of_int (k * (k + 1))) (discount_of p) (payments p)
        + of_int (payments p * (payments p + 1)) * discount_of p ^ nat (payments p))"
  using cash_flow_split [OF valid_payments [OF assms], of "\<lambda>k. of_int (k * (k + 1))" "face_value p"
      "face_value p * period_coupon p" "discount_of p"]
  by (simp add: convexity_sum_of_def direct_convexity_sum_def algebra_simps)

lemma valid_face_value: "valid_params p \<Longrightarrow> 0 < face_value p"
  by (simp add: valid_params_def)

lemma discount_power_pos: "valid_params p \<Longrightarrow> 0 < discount_of p ^ k"
  using valid_discount [of p] by simp

lemma price_sum_pos:
  assumes "valid_params p"
  shows "0 < price_sum p"
proof -
  have "0 \<le> weighted_powers (\<lambda>_. 1) (discount_of p) (payments p)"
    using valid_discount [OF assms] by (intro weighted_powers_nonneg) simp_all
  then have "0 \<le> period_coupon p * weighted_powers (\<lambda>_. 1) (discount_of p) (payments p)"
    using valid_period_coupon [OF assms] by simp
  then have "0 < period_coupon p * weighted_powers (\<lambda>_. 1) (discount_of p) (payments p)
      + discount_of p ^ nat (payments p)"
    using discount_power_pos [OF assms, of "nat (payments p)"] by linarith
  then show ?thesis
    unfolding price_sum_eq [OF assms] using valid_face_value [OF assms] by simp
qed

lemma weighted_sum_pos:
  assumes "valid_params p"
  shows "0 < weighted_sum p"
proof -
  have "0 \<le> weighted_powers of_int (discount_of p) (payments p)"
    using valid_discount [OF assms] by (intro weighted_powers_nonneg) simp_all
  then have "0 \<le> period_coupon p * weighted_powers of_int (discount_of p) (payments p)"
    using valid_period_coupon [OF assms] by simp
  moreover have "0 < of_int (payments p) * discount_of p ^ nat (payments p)"
    using discount_power_pos [OF assms, of "nat (payments p)"] valid_payments [OF assms]
    by simp
  ultimately have "0 < period_coupon p * weighted_powers of_int (discount_of p) (payments p)
      + of_int (payments p) * discount_of p ^ nat (payments p)"
    by linarith
  then show ?thesis
    unfolding weighted_sum_eq [OF assms] using valid_face_value [OF assms] by simp
qed

lemma convexity_sum_pos:
  assumes "valid_params p"
  shows "0 < convexity_sum_of p"
proof -
  have "0 \<le> weighted_powers (\<lambda>k. of_int (k * (k + 1))) (discount_of p) (payments p)"
    using valid_discount [OF assms] by (intro weighted_powers_nonneg) simp_all
  then have "0 \<le> period_coupon p
      * weighted_powers (\<lambda>k. of_int (k * (k + 1))) (discount_of p) (payments p)"
    using valid_period_coupon [OF assms] by simp
  moreover have "0 < payments p * (payments p + 1)"
    using valid_payments [OF assms] by simp
  then have "0 < of_int (payments p * (payments p + 1)) * discount_of p ^ nat (payments p)"
    using discount_power_pos [OF assms, of "nat (payments p)"]
    by (simp del: of_int_mult of_int_add)
  ultimately have "0 < period_coupon p
      * weighted_powers (\<lambda>k. of_int (k * (k + 1))) (discount_of p) (payments p)
      + of_int (payments p * (payments p + 1)) * discount_of p ^ nat (payments p)"
    by linarith
  then show ?thesis
    unfolding convexity_sum_eq [OF assms] using valid_face_value [OF assms] by simp
qed

lemma fdiv_Some: "b \<noteq> 0 \<Longrightarrow> fdiv a b = Some (a / b)"
  by (simp add: fdiv_def)

lemma calculate_valid:
  assumes "valid_params p"
  shows "calculate_bond_metrics p =
    Some \<lparr>price = price_sum p,
          macaulay_duration = weighted_sum p / (price_sum p * of_int (frequency p)),
          modified_duration =
            weighted_sum p / (price_sum p * of_int (frequency p)) / (1 + period_yield p),
          convexity =
            convexity_sum_of p /
              (price_sum p * of_int (frequency p) * of_int (frequency p)
                 * (1 + period_yield p) * (1 + period_yield p)),
          dv01 =
            weighted_sum p / (price_sum p * of_int (frequency p)) / (1 + period_yield p)
              * price_sum p / 10000,
          yield_to_maturity = ytm p\<rparr>"
proof -
  have f: "real_of_int (frequency p) \<noteq> 0"
    using valid_frequency_pos [OF assms] by simp
  have y: "1 + period_yield p \<noteq> 0"
    using valid_period_yield [OF assms] by linarith
  have P: "price_sum p \<noteq> 0"
    using price_sum_pos [OF assms] by simp
  have d1: "fdiv (coupon_rate p) (of_int (frequency p)) = Some (period_coupon p)"
    by (simp add: fdiv_Some [OF f] period_coupon_def)
  have d2: "fdiv (ytm p) (of_int (frequency p)) = Some (period_yield p)"
    by (simp add: fdiv_Some [OF f] period_yield_def)
  have d3: "fdiv 1 (1 + period_yield p) = Some (discount_of p)"
    by (simp add: fdiv_Some [OF y] discount_of_def)
  have loop: "bond_loop (face_value p) (face_value p * period_coupon p) (discount_of p)
       (periods p * frequency p) 1 0 0 0 (discount_of p) =
     (price_sum p, weighted_sum p, convexity_sum_of p)"
    by (simp add: bond_loop_direct price_sum_def weighted_sum_def convexity_sum_of_def
          payments_def)
  have d4: "fdiv (weighted_sum p) (price_sum p * of_int (frequency p)) =
      Some (weighted_sum p / (price_sum p * of_int (frequency p)))"
    using f P by (intro fdiv_Some) simp
  have d5: "fdiv (weighted_sum p / (price_sum p * of_int (frequency p))) (1 + period_yield p) =
      Some (weighted_sum p / (price_sum p * of_int (frequency p)) / (1 + period_yield p))"
    by (rule fdiv_Some [OF y])
  have d6: "fdiv (convexity_sum_of p)
        (price_sum p * of_int (frequency p) * of_int (frequency p)
           * (1 + period_yield p) * (1 + period_yield p)) =
      Some (convexity_sum_of p /
        (price_sum p * of_int (frequency p) * of_int (frequency p)
           * (1 + period_yield p) * (1 + period_yield p)))"
    using f P y by (intro fdiv_Some) simp
  have d7: "\<And>a. fdiv a 10000 = Some (a / 10000)"
    by (simp add: fdiv_def)
  show ?thesis
    unfolding calculate_bond_metrics_def Let_def d1 d2 option.case d3 loop prod.case d4 d5 d6 d7
    by (rule refl)
qed

section \<open>Price against face value and yield\<close>

lemma price_sum_par_form:
  assumes "valid_params p"
  shows "price_sum p =
     face_value p * (1 + (period_coupon p - period_yield p)
        * weighted_powers (\<lambda>_. 1) (discount_of p) (payments p))"
proof -
  have y: "1 + period_yield p \<noteq> 0"
    using valid_period_yield [OF assms] by linarith
  have n: "0 \<le> payments p"
    using valid_payments [OF assms] by simp
  have pw: "discount_of p ^ nat (payments p) =
      1 - period_yield p * weighted_powers (\<lambda>_. 1) (discount_of p) (payments p)"
    using geometric_identity [OF y n] by (simp add: discount_of_def)
  show ?thesis
    unfolding price_sum_eq [OF assms] pw by (simp add: algebra_simps)
qed

lemma annuity_pos:
  assumes "valid_params p"
  shows "0 < weighted_powers (\<lambda>_. 1) (discount_of p) (payments p)"
  using valid_discount [OF assms] valid_payments [OF assms]
  by (intro weighted_powers_pos) simp_all

lemma period_rates_less:
  assumes "valid_params p"
  shows "period_coupon p < period_yield p \<longleftrightarrow> coupon_rate p < ytm p"
    and "period_yield p < period_coupon p \<longleftrightarrow> ytm p < coupon_rate p"
    and "period_coupon p = period_yield p \<longleftrightarrow> coupon_rate p = ytm p"
  using valid_frequency_pos [OF assms]
  by (simp_all add: period_coupon_def period_yield_def divide_less_cancel)

text \<open>
  C1 (par bond), in exact real arithmetic: on valid parameters whose coupon rate equals
  the yield, the calculator returns metrics whose price is the face value.
\<close>

theorem par_bond_price:
  assumes "valid_params p" and "coupon_rate p = ytm p"
  shows "\<exists>m. calculate_bond_metrics p = Some m \<and> price m = face_value p"
proof -
  have "period_coupon p = period_yield p"
    using assms by (simp add: period_rates_less)
  then have "price_sum p = face_value p"
    by (simp add: price_sum_par_form [OF assms(1)])
  then show ?thesis
    by (simp add: calculate_valid [OF assms(1)])
qed

theorem par_bond_price_witness:
  "valid_params \<lparr>face_value = 1000, coupon_rate = 1/20, ytm = 1/20, periods = 10, frequency = 1\<rparr>
   \<and> (\<exists>m. calculate_bond_metrics
          \<lparr>face_value = 1000, coupon_rate = 1/20, ytm = 1/20, periods = 10, frequency = 1\<rparr> = Some m
        \<and> price m = 1000)"
  using par_bond_price
    [of "\<lparr>face_value = 1000, coupon_rate = 1/20, ytm = 1/20, periods = 10, frequency = 1\<rparr>"]
  by (simp add: valid_params_def)

text \<open>
  C2 (premium and discount), in exact real arithmetic: on valid parameters, a coupon rate
  above the yield gives a price strictly above the face value, and a coupon rate below the
  yield gives a price strictly below it.
\<close>

theorem premium_discount:
  assumes "valid_params p"
  shows "\<exists>m. calculate_bond_metrics p = Some m \<and>
           (ytm p < coupon_rate p \<longrightarrow> face_value p < price m) \<and>
           (coupon_rate p < ytm p \<longrightarrow> price m < face_value p)"
proof -
  let ?G = "weighted_powers (\<lambda>_. 1) (discount_of p) (payments p)"
  have G: "0 < ?G" by (rule annuity_pos [OF assms])
  have fv: "0 < face_value p" by (rule valid_face_value [OF assms])
  have eq: "price_sum p - face_value p =
      face_value p * ((period_coupon p - period_yield p) * ?G)"
    unfolding price_sum_par_form [OF assms] by (simp add: algebra_simps)
  have up: "face_value p < price_sum p" if "ytm p < coupon_rate p"
  proof -
    have "0 < period_coupon p - period_yield p"
      using that period_rates_less(2) [OF assms] by simp
    then have "0 < face_value p * ((period_coupon p - period_yield p) * ?G)"
      using G fv by simp
    then show ?thesis using eq by linarith
  qed
  have down: "price_sum p < face_value p" if "coupon_rate p < ytm p"
  proof -
    have "period_coupon p - period_yield p < 0"
      using that period_rates_less(1) [OF assms] by simp
    then have "(period_coupon p - period_yield p) * ?G < 0"
      using G by (simp add: mult_less_0_iff)
    then have "face_value p * ((period_coupon p - period_yield p) * ?G) < 0"
      using fv by (simp add: mult_less_0_iff)
    then show ?thesis using eq by linarith
  qed
  show ?thesis
    using up down by (simp add: calculate_valid [OF assms])
qed

theorem premium_discount_witness:
  "valid_params \<lparr>face_value = 100, coupon_rate = 1/10, ytm = 0, periods = 1, frequency = 1\<rparr>
   \<and> (\<exists>m. calculate_bond_metrics
          \<lparr>face_value = 100, coupon_rate = 1/10, ytm = 0, periods = 1, frequency = 1\<rparr> = Some m
        \<and> 100 < price m)
   \<and> valid_params \<lparr>face_value = 100, coupon_rate = 0, ytm = 1/10, periods = 1, frequency = 2\<rparr>
   \<and> (\<exists>m. calculate_bond_metrics
          \<lparr>face_value = 100, coupon_rate = 0, ytm = 1/10, periods = 1, frequency = 2\<rparr> = Some m
        \<and> price m < 100)"
  using premium_discount
    [of "\<lparr>face_value = 100, coupon_rate = 1/10, ytm = 0, periods = 1, frequency = 1\<rparr>"]
    premium_discount
    [of "\<lparr>face_value = 100, coupon_rate = 0, ytm = 1/10, periods = 1, frequency = 2\<rparr>"]
  by (simp add: valid_params_def)

text \<open>
  C3 (monotonicity), in exact real arithmetic: of two valid parameter records that differ
  in the yield only, the one with the strictly smaller yield gets the strictly greater
  price.
\<close>

theorem price_decreasing_in_ytm:
  assumes "valid_params p" and "valid_params q"
    and "face_value p = face_value q" and "coupon_rate p = coupon_rate q"
    and "periods p = periods q" and "frequency p = frequency q"
    and "ytm p < ytm q"
  shows "\<exists>m m'. calculate_bond_metrics p = Some m \<and> calculate_bond_metrics q = Some m' \<and>
           price m' < price m"
proof -
  have n: "payments q = payments p" and c: "period_coupon q = period_coupon p"
    using assms by (simp_all add: payments_def period_coupon_def)
  have "period_yield p < period_yield q"
    using assms(6,7) valid_frequency_pos [OF assms(2)]
    by (simp add: period_yield_def divide_less_cancel)
  then have d: "discount_of q < discount_of p"
    using valid_period_yield [OF assms(1)]
    by (simp add: discount_of_def frac_less2)
  have dq: "0 \<le> discount_of q"
    using valid_discount [OF assms(2)] by simp
  have "0 < nat (payments p)"
    using valid_payments [OF assms(1)] by simp
  then have last: "discount_of q ^ nat (payments p) < discount_of p ^ nat (payments p)"
    using d dq by (intro power_strict_mono) simp_all
  have "weighted_powers (\<lambda>_. 1) (discount_of q) (payments p)
      \<le> weighted_powers (\<lambda>_. 1) (discount_of p) (payments p)"
    using d dq by (intro weighted_powers_mono) simp_all
  then have "period_coupon p * weighted_powers (\<lambda>_. 1) (discount_of q) (payments p)
      \<le> period_coupon p * weighted_powers (\<lambda>_. 1) (discount_of p) (payments p)"
    using valid_period_coupon [OF assms(1)] by (rule mult_left_mono)
  with last have "period_coupon p * weighted_powers (\<lambda>_. 1) (discount_of q) (payments p)
        + discount_of q ^ nat (payments p)
      < period_coupon p * weighted_powers (\<lambda>_. 1) (discount_of p) (payments p)
        + discount_of p ^ nat (payments p)"
    by linarith
  then have "price_sum q < price_sum p"
    unfolding price_sum_eq [OF assms(1)] price_sum_eq [OF assms(2)] n c
    using valid_face_value [OF assms(1)] assms(3) by simp
  then show ?thesis
    by (simp add: calculate_valid [OF assms(1)] calculate_valid [OF assms(2)])
qed

theorem price_decreasing_in_ytm_witness:
  "valid_params \<lparr>face_value = 100, coupon_rate = 0, ytm = 0, periods = 1, frequency = 1\<rparr> \<and>
   valid_params \<lparr>face_value = 100, coupon_rate = 0, ytm = 1, periods = 1, frequency = 1\<rparr> \<and>
   (\<exists>m m'. calculate_bond_metrics
              \<lparr>face_value = 100, coupon_rate = 0, ytm = 0, periods = 1, frequency = 1\<rparr> = Some m \<and>
            calculate_bond_metrics
              \<lparr>face_value = 100, coupon_rate = 0, ytm = 1, periods = 1, frequency = 1\<rparr> = Some m' \<and>
            price m' < price m)"
  using price_decreasing_in_ytm
    [of "\<lparr>face_value = 100, coupon_rate = 0, ytm = 0, periods = 1, frequency = 1\<rparr>"
        "\<lparr>face_value = 100, coupon_rate = 0, ytm = 1, periods = 1, frequency = 1\<rparr>"]
  by (simp add: valid_params_def)

section \<open>Duration, convexity and the divisors\<close>

lemma cancel_common_factor: "c \<noteq> 0 \<Longrightarrow> a * c / (c * b) = a / (b::real)"
  by simp

lemma weighted_powers_le_last:
  assumes "0 \<le> d"
  shows "weighted_powers of_int d n \<le> of_int n * weighted_powers (\<lambda>_. 1) d n"
proof -
  have "(\<Sum>k\<leftarrow>[1..n]. of_int k * d ^ nat k) \<le> (\<Sum>k\<leftarrow>[1..n]. of_int n * (1 * d ^ nat k))"
    by (rule sum_list_mono) (auto simp: assms mult_right_mono)
  then show ?thesis
    unfolding weighted_powers_def by (simp add: sum_list_const_mult)
qed

lemma weighted_sum_le:
  assumes "valid_params p"
  shows "weighted_sum p \<le> of_int (payments p) * price_sum p"
proof -
  let ?n = "real_of_int (payments p)"
  let ?W = "weighted_powers of_int (discount_of p) (payments p)"
  let ?G = "weighted_powers (\<lambda>_. 1) (discount_of p) (payments p)"
  let ?D = "discount_of p ^ nat (payments p)"
  have "?W \<le> ?n * ?G"
    using valid_discount [OF assms] by (intro weighted_powers_le_last) simp
  then have "period_coupon p * ?W \<le> period_coupon p * (?n * ?G)"
    using valid_period_coupon [OF assms] by (rule mult_left_mono)
  then have "period_coupon p * ?W + ?n * ?D \<le> ?n * (period_coupon p * ?G + ?D)"
    by (simp add: algebra_simps)
  then have "face_value p * (period_coupon p * ?W + ?n * ?D)
      \<le> face_value p * (?n * (period_coupon p * ?G + ?D))"
    using valid_face_value [OF assms] by (intro mult_left_mono) simp_all
  then show ?thesis
    unfolding weighted_sum_eq [OF assms] price_sum_eq [OF assms] by (simp add: mult.left_commute)
qed

text \<open>
  C4 (duration bound), in exact real arithmetic: on valid parameters the Macaulay duration
  is at most the number of years \<open>periods\<close>, and it is strictly positive when the coupon
  rate is positive.
\<close>

theorem macaulay_duration_bounds:
  assumes "valid_params p"
  shows "\<exists>m. calculate_bond_metrics p = Some m \<and>
           macaulay_duration m \<le> of_int (periods p) \<and>
           (0 < coupon_rate p \<longrightarrow> 0 < macaulay_duration m)"
proof -
  have div: "0 < price_sum p * of_int (frequency p)"
    using price_sum_pos [OF assms] valid_frequency_pos [OF assms] by simp
  have "weighted_sum p \<le> of_int (periods p) * (price_sum p * of_int (frequency p))"
    using weighted_sum_le [OF assms] by (simp add: payments_def mult_ac)
  then have upper: "weighted_sum p / (price_sum p * of_int (frequency p)) \<le> of_int (periods p)"
    using div by (simp add: pos_divide_le_eq)
  have lower: "0 < weighted_sum p / (price_sum p * of_int (frequency p))"
    using weighted_sum_pos [OF assms] div by (rule divide_pos_pos)
  show ?thesis
    using upper lower by (simp add: calculate_valid [OF assms])
qed

theorem macaulay_duration_bounds_witness:
  "valid_params \<lparr>face_value = 100, coupon_rate = 1/10, ytm = 0, periods = 3, frequency = 2\<rparr>
   \<and> (\<exists>m. calculate_bond_metrics
          \<lparr>face_value = 100, coupon_rate = 1/10, ytm = 0, periods = 3, frequency = 2\<rparr> = Some m
        \<and> macaulay_duration m \<le> 3 \<and> 0 < macaulay_duration m)"
  using macaulay_duration_bounds
    [of "\<lparr>face_value = 100, coupon_rate = 1/10, ytm = 0, periods = 3, frequency = 2\<rparr>"]
  by (simp add: valid_params_def)

text \<open>
  C5 (zero coupon), in exact real arithmetic: on valid parameters with coupon rate 0 the
  price is the discounted redemption
  \<open>face_value / (1 + ytm / frequency) ^ (periods * frequency)\<close> and the Macaulay duration is
  exactly \<open>periods\<close>.
\<close>

theorem zero_coupon:
  assumes "valid_params p" and "coupon_rate p = 0"
  shows "\<exists>m. calculate_bond_metrics p = Some m \<and>
           price m = face_value p /
             (1 + ytm p / of_int (frequency p)) ^ nat (periods p * frequency p) \<and>
           macaulay_duration m = of_int (periods p)"
proof -
  let ?D = "discount_of p ^ nat (payments p)"
  have c: "period_coupon p = 0"
    using assms(2) by (simp add: period_coupon_def)
  have ps: "price_sum p = face_value p * ?D"
    unfolding price_sum_eq [OF assms(1)] c by simp
  have ws: "weighted_sum p = face_value p * (of_int (payments p) * ?D)"
    unfolding weighted_sum_eq [OF assms(1)] c by simp
  have D: "?D = 1 / (1 + ytm p / of_int (frequency p)) ^ nat (periods p * frequency p)"
    by (simp add: discount_of_def period_yield_def payments_def power_one_over)
  have price_eq: "price_sum p =
      face_value p / (1 + ytm p / of_int (frequency p)) ^ nat (periods p * frequency p)"
    unfolding ps D by simp
  have "0 < face_value p * ?D"
    by (intro mult_pos_pos valid_face_value discount_power_pos assms(1))
  then have nz1: "face_value p * ?D \<noteq> 0"
    by linarith
  have nz2: "real_of_int (frequency p) \<noteq> 0"
    using valid_frequency_pos [OF assms(1)] by simp
  have "weighted_sum p / (price_sum p * of_int (frequency p)) =
      of_int (payments p) * (face_value p * ?D) / (face_value p * ?D * of_int (frequency p))"
    unfolding ps ws by (simp add: mult_ac)
  also have "\<dots> = of_int (payments p) / of_int (frequency p)"
    by (rule cancel_common_factor [OF nz1])
  also have "\<dots> = of_int (periods p)"
    using nz2 by (simp add: payments_def)
  finally have mac: "weighted_sum p / (price_sum p * of_int (frequency p)) = of_int (periods p)" .
  show ?thesis
    using price_eq mac by (simp add: calculate_valid [OF assms(1)])
qed

theorem zero_coupon_witness:
  "valid_params \<lparr>face_value = 100, coupon_rate = 0, ytm = 1, periods = 1, frequency = 2\<rparr>
   \<and> (\<exists>m. calculate_bond_metrics
          \<lparr>face_value = 100, coupon_rate = 0, ytm = 1, periods = 1, frequency = 2\<rparr> = Some m
        \<and> price m = 400 / 9 \<and> macaulay_duration m = 1)"
  using zero_coupon
    [of "\<lparr>face_value = 100, coupon_rate = 0, ytm = 1, periods = 1, frequency = 2\<rparr>"]
  by (simp add: valid_params_def power2_eq_square)

text \<open>
  C6 (no division by zero), in exact real arithmetic: on valid parameters the accumulated
  price is strictly positive, the divisor of each of the four final divisions is different
  from zero, and the calculator returns a record of six real numbers.
\<close>

theorem price_positive_divisors_nonzero:
  assumes "valid_params p"
  shows "\<exists>m. calculate_bond_metrics p = Some m \<and> 0 < price m \<and>
           price m * of_int (frequency p) \<noteq> 0 \<and>
           1 + ytm p / of_int (frequency p) \<noteq> 0 \<and>
           price m * of_int (frequency p) * of_int (frequency p)
             * (1 + ytm p / of_int (frequency p)) * (1 + ytm p / of_int (frequency p)) \<noteq> 0 \<and>
           (10000 :: real) \<noteq> 0"
proof -
  have P: "0 < price_sum p" by (rule price_sum_pos [OF assms])
  have f: "0 < real_of_int (frequency p)"
    using valid_frequency_pos [OF assms] by simp
  have y: "0 < 1 + ytm p / of_int (frequency p)"
    using valid_period_yield [OF assms] by (simp add: period_yield_def)
  show ?thesis
    using P f y by (simp add: calculate_valid [OF assms])
qed

theorem price_positive_divisors_nonzero_witness:
  "valid_params \<lparr>face_value = 1000, coupon_rate = 1/20, ytm = 3/50, periods = 100, frequency = 12\<rparr>
   \<and> (\<exists>m. calculate_bond_metrics
          \<lparr>face_value = 1000, coupon_rate = 1/20, ytm = 3/50, periods = 100, frequency = 12\<rparr> = Some m
        \<and> 0 < price m)"
  using price_positive_divisors_nonzero
    [of "\<lparr>face_value = 1000, coupon_rate = 1/20, ytm = 3/50, periods = 100, frequency = 12\<rparr>"]
  by (auto simp add: valid_params_def)

text \<open>
  C10 (positive convexity and DV01), in exact real arithmetic: on valid parameters the
  convexity and the DV01 the calculator returns are strictly positive.
\<close>

theorem convexity_dv01_positive:
  assumes "valid_params p"
  shows "\<exists>m. calculate_bond_metrics p = Some m \<and> 0 < convexity m \<and> 0 < dv01 m"
proof -
  have P: "0 < price_sum p" by (rule price_sum_pos [OF assms])
  have f: "0 < real_of_int (frequency p)"
    using valid_frequency_pos [OF assms] by simp
  have y: "0 < 1 + period_yield p"
    using valid_period_yield [OF assms] by simp
  have conv: "0 < convexity_sum_of p /
      (price_sum p * of_int (frequency p) * of_int (frequency p)
         * (1 + period_yield p) * (1 + period_yield p))"
    using convexity_sum_pos [OF assms] P f y by (intro divide_pos_pos mult_pos_pos)
  have "0 < weighted_sum p / (price_sum p * of_int (frequency p)) / (1 + period_yield p)"
    using weighted_sum_pos [OF assms] P f y by (intro divide_pos_pos mult_pos_pos)
  then have "0 < weighted_sum p / (price_sum p * of_int (frequency p)) / (1 + period_yield p)
      * price_sum p"
    using P by (rule mult_pos_pos)
  then have dv: "0 < weighted_sum p / (price_sum p * of_int (frequency p)) / (1 + period_yield p)
      * price_sum p / 10000"
    by (rule divide_pos_pos) simp
  show ?thesis
    using conv dv by (simp add: calculate_valid [OF assms])
qed

theorem convexity_dv01_positive_witness:
  "valid_params \<lparr>face_value = 1000, coupon_rate = 3/50, ytm = 2/25, periods = 5, frequency = 2\<rparr>
   \<and> (\<exists>m. calculate_bond_metrics
          \<lparr>face_value = 1000, coupon_rate = 3/50, ytm = 2/25, periods = 5, frequency = 2\<rparr> = Some m
        \<and> 0 < convexity m \<and> 0 < dv01 m)"
  using convexity_dv01_positive
    [of "\<lparr>face_value = 1000, coupon_rate = 3/50, ytm = 2/25, periods = 5, frequency = 2\<rparr>"]
  by (simp add: valid_params_def)

section \<open>The iterative discount factor and the concrete scenario\<close>



text \<open>
  The par bond of face value 1000 with coupon rate and yield \<open>5 / 100\<close>, 10 years and one
  payment a year, in exact real arithmetic: the price is 1000, the Macaulay duration is
  8.1078 and the modified duration is 7.7217, both to four decimal places.
\<close>

lemma par_bond_scenario_exact:
  "\<exists>m. calculate_bond_metrics
          \<lparr>face_value = 1000, coupon_rate = 5 / 100, ytm = 5 / 100, periods = 10, frequency = 1\<rparr>
        = Some m \<and>
      price m = 1000 \<and>
      \<bar>macaulay_duration m - 81078 / 10000\<bar> < 5 / 100000 \<and>
      \<bar>modified_duration m - 77217 / 10000\<bar> < 5 / 100000"
proof -
  let ?p = "\<lparr>face_value = 1000, coupon_rate = 5 / 100, ytm = 5 / 100, periods = 10,
    frequency = 1\<rparr> :: real BondParams"
  have v: "valid_params ?p"
    by (simp add: valid_params_def)
  have d: "discount_of ?p = 20 / 21" "period_coupon ?p = 1 / 20" "payments ?p = 10"
    "period_yield ?p = 1 / 20"
    by (simp_all add: discount_of_def period_yield_def period_coupon_def payments_def)
  have P: "price_sum ?p = 1000"
    unfolding price_sum_def d direct_price_def
    by (simp add: cash_flow_def upto.simps [of 1] power_divide)
  have W: "weighted_sum ?p = 6439880978201000 / 794280046581"
    unfolding weighted_sum_def d direct_weighted_pv_def
    by (simp add: cash_flow_def upto.simps [of 1] power_divide)
  show ?thesis
    unfolding calculate_valid [OF v] P W d by simp
qed

section \<open>IEEE arithmetic: rounding and underflow\<close>

lemma expo_from_subnormal: "a < 2 powi (- 1021) \<Longrightarrow> expo_from a e = - 1022"
proof (induction a e rule: expo_from.induct)
  case (1 a e)
  show ?case
  proof (cases "e \<le> - 1022")
    case True
    then show ?thesis by (simp add: expo_from.simps [of a e])
  next
    case False
    then have "(2::real) powi (- 1021) \<le> 2 powi e"
      by (intro power_int_increasing) simp_all
    then have "\<not> 2 powi e \<le> a"
      using "1.prems" by linarith
    then show ?thesis
      using False "1.IH" "1.prems" by (simp add: expo_from.simps [of a e])
  qed
qed

lemma expo_from_bounds:
  "2 powi (- 1022) \<le> a \<Longrightarrow> a < 2 powi (e + 1) \<Longrightarrow>
   2 powi (expo_from a e) \<le> a \<and> a < 2 powi (expo_from a e + 1) \<and>
   - 1022 \<le> expo_from a e \<and> expo_from a e \<le> e"
proof (induction a e rule: expo_from.induct)
  case (1 a e)
  show ?case
  proof (cases "e \<le> - 1022")
    case True
    have e: "e = - 1022"
    proof (rule ccontr)
      assume "e \<noteq> - 1022"
      then have "e + 1 \<le> - 1022" using True by simp
      then have "(2::real) powi (e + 1) \<le> 2 powi (- 1022)"
        by (intro power_int_increasing) simp_all
      then show False using "1.prems" by linarith
    qed
    have ex: "expo_from a e = - 1022"
      using True by (simp add: expo_from.simps [of a e])
    have "a < 2 powi (- 1022 + 1)"
      using "1.prems"(2) unfolding e .
    then show ?thesis
      unfolding e ex [unfolded e] using "1.prems"(1) [unfolded e] by simp
  next
    case False
    show ?thesis
    proof (cases "2 powi e \<le> a")
      case True
      then show ?thesis
        using False "1.prems" by (simp add: expo_from.simps [of a e])
    next
      case high: False
      then have "a < 2 powi (e - 1 + 1)" by simp
      from "1.IH" [OF False high "1.prems"(1) this]
      show ?thesis
        using False high by (simp add: expo_from.simps [of a e])
    qed
  qed
qed

lemma round_even_of_int [simp]: "round_even (of_int m) = m"
  by (simp add: round_even_def)

lemma round_even_half: "round_even (1 / 2) = 0"
proof -
  have "\<lfloor>1 / 2 :: real\<rfloor> = 0" by simp
  then show ?thesis by (simp add: round_even_def Let_def)
qed

lemma rnd_exact:
  assumes "x = of_int m * 2 powi (expo x - 52)" and "\<bar>x\<bar> < 2 ^ 1024"
  shows "rnd x = Finite x"
proof -
  have q: "(2::real) powi (expo x - 52) \<noteq> 0" by simp
  have "x / 2 powi (expo x - 52) = of_int m"
    using q by (subst assms(1)) simp
  then show ?thesis
    using assms by (simp add: rnd_def Let_def)
qed

lemma round_even_0 [simp]: "round_even 0 = 0"
  using round_even_of_int [of 0] by simp

lemma rnd_0 [simp]: "rnd 0 = Finite 0"
  by (simp add: rnd_def Let_def)

lemma expo_bounds:
  assumes "2 powi (- 1022) \<le> \<bar>x\<bar>" and "\<bar>x\<bar> < 2 powi 1024"
  shows "2 powi (expo x) \<le> \<bar>x\<bar>" and "\<bar>x\<bar> < 2 powi (expo x + 1)"
    and "- 1022 \<le> expo x" and "expo x \<le> 1023"
  using expo_from_bounds [of "\<bar>x\<bar>" 1023] assms unfolding expo_def by simp_all

lemma expo_eq:
  assumes "2 powi k \<le> \<bar>x\<bar>" and "\<bar>x\<bar> < 2 powi (k + 1)" and "- 1022 \<le> k" and "k \<le> 1023"
  shows "expo x = k"
proof -
  have lo: "(2::real) powi (- 1022) \<le> 2 powi k"
    using assms(3) by (intro power_int_increasing) simp_all
  have hi: "(2::real) powi (k + 1) \<le> 2 powi 1024"
    using assms(4) by (intro power_int_increasing) simp_all
  have a: "2 powi (- 1022) \<le> \<bar>x\<bar>" "\<bar>x\<bar> < 2 powi 1024"
    using lo hi assms(1,2) by linarith+
  note b = expo_bounds [OF a]
  have "(2::real) powi (expo x) < 2 powi (k + 1)"
    using b(1) assms(2) by linarith
  then have "expo x < k + 1"
  proof (rule contrapos_pp)
    assume "\<not> expo x < k + 1"
    then have "(2::real) powi (k + 1) \<le> 2 powi (expo x)"
      by (intro power_int_increasing) simp_all
    then show "\<not> (2::real) powi (expo x) < 2 powi (k + 1)" by linarith
  qed
  moreover have "(2::real) powi k < 2 powi (expo x + 1)"
    using b(2) assms(1) by linarith
  then have "k < expo x + 1"
  proof (rule contrapos_pp)
    assume "\<not> k < expo x + 1"
    then have "(2::real) powi (expo x + 1) \<le> 2 powi k"
      by (intro power_int_increasing) simp_all
    then show "\<not> (2::real) powi k < 2 powi (expo x + 1)" by linarith
  qed
  ultimately show ?thesis by linarith
qed

lemma expo_subnormal: "\<bar>x\<bar> < 2 powi (- 1021) \<Longrightarrow> expo x = - 1022"
  unfolding expo_def by (rule expo_from_subnormal)

lemma two_powi_split: "(2::real) powi (a + b) = 2 powi a * 2 powi b"
  by (rule power_int_add) simp

lemma two_powi_less_1024: "k \<le> 1023 \<Longrightarrow> (2::real) powi k < 2 ^ 1024"
proof -
  assume "k \<le> 1023"
  then have "(2::real) powi k \<le> 2 powi 1023"
    by (intro power_int_increasing) simp_all
  also have "(2::real) powi 1023 < 2 powi 1024"
    by (intro power_int_strict_increasing) simp_all
  also have "(2::real) powi 1024 = 2 ^ 1024"
    by (rule power_int_numeral)
  finally show ?thesis .
qed

lemma rnd_pow2:
  assumes "- 1074 \<le> k" and "k \<le> 1023"
  shows "rnd (2 powi k) = Finite (2 powi k)"
proof -
  have abs: "\<bar>(2::real) powi k\<bar> = 2 powi k" by simp
  have fin: "\<bar>(2::real) powi k\<bar> < 2 ^ 1024"
    unfolding abs by (rule two_powi_less_1024 [OF assms(2)])
  show ?thesis
  proof (cases "- 1022 \<le> k")
    case True
    have "(2::real) powi k < 2 powi (k + 1)"
      by (intro power_int_strict_increasing) simp_all
    then have e: "expo (2 powi k) = k"
      using True assms(2) by (intro expo_eq) (simp_all only: abs order_refl)
    have "(2::real) powi k = 2 powi (52 + (k - 52))" by simp
    also have "\<dots> = 2 powi 52 * 2 powi (k - 52)" by (rule two_powi_split)
    also have "(2::real) powi 52 = of_int (2 ^ 52)" by simp
    finally have "(2::real) powi k = of_int (2 ^ 52) * 2 powi (expo (2 powi k) - 52)"
      unfolding e .
    then show ?thesis using fin by (rule rnd_exact)
  next
    case False
    then have "(2::real) powi k < 2 powi (- 1021)"
      by (intro power_int_strict_increasing) simp_all
    then have e: "expo (2 powi k) = - 1022"
      by (intro expo_subnormal) (simp only: abs)
    have nn: "0 \<le> k + 1074" using assms(1) by simp
    have "(2::real) powi k = 2 powi ((k + 1074) + (- 1022 - 52))" by simp
    also have "\<dots> = 2 powi (k + 1074) * 2 powi (- 1022 - 52)" by (rule two_powi_split)
    also have "(2::real) powi (k + 1074) = of_int (2 ^ nat (k + 1074))"
      using nn by (simp add: power_int_nonneg_exp)
    finally have "(2::real) powi k =
        of_int (2 ^ nat (k + 1074)) * 2 powi (expo (2 powi k) - 52)"
      unfolding e .
    then show ?thesis using fin by (rule rnd_exact)
  qed
qed

lemma rnd_below_least: "rnd (2 powi (- 1075)) = Finite 0"
proof -
  have "(2::real) powi (- 1075) < 2 powi (- 1021)"
    by (intro power_int_strict_increasing) simp_all
  then have e: "expo (2 powi (- 1075)) = - 1022"
    by (intro expo_subnormal) simp
  have "(2::real) powi (- 1075) = 2 powi (- 1 + (- 1022 - 52))" by simp
  also have "\<dots> = 2 powi (- 1) * 2 powi (- 1022 - 52)" by (rule two_powi_split)
  finally have "(2::real) powi (- 1075) / 2 powi (- 1022 - 52) = 2 powi (- 1)"
    by simp
  also have "(2::real) powi (- 1) = 1 / 2"
    by (simp add: power_int_minus)
  finally have "round_even (2 powi (- 1075) / 2 powi (- 1022 - 52)) = 0"
    by (simp only: round_even_half)
  then show ?thesis
    unfolding rnd_def Let_def e by simp
qed

lemma rnd_int:
  assumes "\<bar>m\<bar> < 2 ^ 53"
  shows "rnd (of_int m) = Finite (of_int m)"
proof (cases "m = 0")
  case True
  then show ?thesis by simp
next
  case False
  let ?x = "real_of_int m"
  have one: "1 \<le> \<bar>?x\<bar>"
    using False by (simp flip: of_int_abs)
  have "(2::real) powi (- 1022) \<le> 2 powi 0"
    by (intro power_int_increasing) simp_all
  then have lo: "2 powi (- 1022) \<le> \<bar>?x\<bar>"
    using one by simp
  have "\<bar>?x\<bar> < of_int (2 ^ 53)"
    using assms unfolding of_int_abs [symmetric] of_int_less_iff .
  then have lt53: "\<bar>?x\<bar> < 2 powi 53"
    by simp
  have "(2::real) powi 53 \<le> 2 powi 1024"
    by (intro power_int_increasing) simp_all
  then have hi: "\<bar>?x\<bar> < 2 powi 1024"
    using lt53 by linarith
  note b = expo_bounds [OF lo hi]
  have "(2::real) powi (expo ?x) < 2 powi 53"
    using b(1) lt53 by linarith
  then have "expo ?x < 53"
  proof (rule contrapos_pp)
    assume "\<not> expo ?x < 53"
    then have "(2::real) powi 53 \<le> 2 powi (expo ?x)"
      by (intro power_int_increasing) simp_all
    then show "\<not> (2::real) powi (expo ?x) < 2 powi 53" by linarith
  qed
  then have j: "0 \<le> 52 - expo ?x" by simp
  have "(1::real) = 2 powi ((52 - expo ?x) + (expo ?x - 52))" by simp
  also have "\<dots> = 2 powi (52 - expo ?x) * 2 powi (expo ?x - 52)" by (rule two_powi_split)
  also have "(2::real) powi (52 - expo ?x) = of_int (2 ^ nat (52 - expo ?x))"
    using j by (simp add: power_int_nonneg_exp)
  finally have "?x = of_int (m * 2 ^ nat (52 - expo ?x)) * 2 powi (expo ?x - 52)"
    by (simp add: mult.assoc)
  moreover have "\<bar>?x\<bar> < 2 ^ 1024"
    using hi by simp
  ultimately show ?thesis by (rule rnd_exact)
qed

lemma round_even_near:
  assumes "2 * \<bar>z - of_int m\<bar> < 1 \<or> (2 * \<bar>z - of_int m\<bar> = 1 \<and> even m)"
  shows "round_even z = m"
proof (cases "of_int m \<le> z")
  case True
  then have f: "\<lfloor>z\<rfloor> = m"
    using assms by (intro floor_unique) auto
  show ?thesis
    using assms True unfolding round_even_def Let_def f by auto
next
  case False
  then have f: "\<lfloor>z\<rfloor> = m - 1"
    using assms by (intro floor_unique) auto
  show ?thesis
    using assms False unfolding round_even_def Let_def f by auto
qed

lemma rnd_at:
  assumes "2 powi k \<le> \<bar>x\<bar>" and "\<bar>x\<bar> < 2 powi (k + 1)" and "- 1022 \<le> k" and "k \<le> 1023"
    and "2 * \<bar>x / 2 powi (k - 52) - of_int m\<bar> < 1
         \<or> (2 * \<bar>x / 2 powi (k - 52) - of_int m\<bar> = 1 \<and> even m)"
    and "\<bar>real_of_int m * 2 powi (k - 52)\<bar> < 2 ^ 1024"
  shows "rnd x = Finite (of_int m * 2 powi (k - 52))"
proof -
  have e: "expo x = k"
    using assms(1-4) by (rule expo_eq)
  have r: "round_even (x / 2 powi (k - 52)) = m"
    using assms(5) by (rule round_even_near)
  show ?thesis
    unfolding rnd_def Let_def e r using assms(6) by simp
qed

lemma round_even_numeral [simp]: "round_even (numeral n) = numeral n"
  using round_even_of_int [of "numeral n"] by simp

lemma rnd_overflow: "rnd (2 ^ 1024) = PInf"
proof -
  have e: "expo (2 ^ 1024) = 1023"
    unfolding expo_def by (simp add: expo_from.simps [of _ 1023])
  show ?thesis
    unfolding rnd_def e Let_def by simp
qed

lemma rnd_greatest_power: "rnd (2 ^ 1023) = Finite (2 ^ 1023)"
  using rnd_pow2 [of 1023] by simp

lemma rnd_half: "rnd (1 / 2) = Finite (1 / 2)"
  using rnd_pow2 [of "- 1"] by (simp add: power_int_minus)

lemma rnd_quarter: "rnd (1 / 4) = Finite (1 / 4)"
  using rnd_pow2 [of "- 2"] by (simp add: power_int_minus)

section \<open>IEEE arithmetic: the discount factor underflows\<close>

lemma d_of_int_exact: "\<bar>i\<bar> < 2 ^ 53 \<Longrightarrow> d_of_int i = Finite (of_int i)"
  unfolding d_of_int_def by (rule rnd_int)

lemma halved_step:
  assumes "1 \<le> t"
  shows "dmul (Finite (halved t)) (Finite (1 / 2)) = Finite (halved (t + 1))"
proof -
  have half: "(1 / 2 :: real) = 2 powi (- 1)"
    by (simp add: power_int_minus)
  have mul: "dmul (Finite (halved t)) (Finite (1 / 2)) = rnd (halved t * (1 / 2))"
    by (simp only: dmul.simps)
  consider "t \<le> 1073" | "t = 1074" | "1074 < t" by linarith
  then show ?thesis
  proof cases
    case 1
    have "halved t * (1 / 2) = 2 powi (- t) * 2 powi (- 1)"
      using 1 unfolding half halved_def by simp
    also have "\<dots> = 2 powi (- t + - 1)"
      by (simp only: two_powi_split)
    also have "- t + - 1 = - (t + 1)" by simp
    finally have "halved t * (1 / 2) = 2 powi (- (t + 1))" .
    moreover have "rnd (2 powi (- (t + 1))) = Finite (2 powi (- (t + 1)))"
      using 1 assms by (intro rnd_pow2) simp_all
    moreover have "halved (t + 1) = 2 powi (- (t + 1))"
      using 1 by (simp add: halved_def)
    ultimately show ?thesis
      unfolding mul by (simp only:)
  next
    case 2
    have "halved t * (1 / 2) = 2 powi (- 1074) * 2 powi (- 1)"
      unfolding half halved_def 2 by simp
    also have "\<dots> = 2 powi (- 1074 + - 1)"
      by (simp only: two_powi_split)
    also have "(- 1074 + - 1 :: int) = - 1075" by simp
    finally have "halved t * (1 / 2) = 2 powi (- 1075)" .
    moreover have "halved (t + 1) = 0"
      using 2 by (simp add: halved_def)
    ultimately show ?thesis
      unfolding mul by (simp only: rnd_below_least)
  next
    case 3
    then have "halved t = 0" "halved (t + 1) = 0"
      by (simp_all add: halved_def)
    then show ?thesis
      unfolding mul by simp
  qed
qed

lemma rnd_1000: "rnd 1000 = Finite 1000"
  using rnd_int [of 1000] by simp

lemma underflow_loop:
  assumes "1 \<le> t" and "t \<le> 1201"
  shows "bond_loop_ieee (Finite 1000) (Finite 0) (Finite (1 / 2)) 1200 t
           (Finite 0) (Finite 0) (Finite 0) (Finite (halved t)) =
         (Finite 0, Finite 0, Finite 0)"
  using assms
proof (induction "nat (1201 - t)" arbitrary: t)
  case 0
  then have "\<not> t \<le> 1200" by simp
  then show ?case
    by (simp add: bond_loop_ieee.simps [of _ _ _ 1200 t])
next
  case (Suc k)
  then have le: "t \<le> 1200" by simp
  have t53: "\<bar>t\<bar> < 2 ^ 53"
    using Suc.prems le by simp
  have "t * (t + 1) \<le> 1200 * (1200 + 1)"
    using Suc.prems le by (intro mult_mono) simp_all
  then have tt53: "\<bar>t * (t + 1)\<bar> < 2 ^ 53"
    using Suc.prems by simp
  have pv: "dmul (if t = 1200 then dadd (Finite 0) (Finite 1000) else Finite 0)
      (Finite (halved t)) = Finite 0"
    by (simp add: rnd_1000 halved_def)
  have ih: "bond_loop_ieee (Finite 1000) (Finite 0) (Finite (1 / 2)) 1200 (t + 1)
      (Finite 0) (Finite 0) (Finite 0) (Finite (halved (t + 1))) =
      (Finite 0, Finite 0, Finite 0)"
    using Suc.hyps(2) Suc.prems le by (intro Suc.hyps(1)) simp_all
  show ?case
    unfolding bond_loop_ieee.simps [of _ _ _ 1200 t] Let_def pv halved_step [OF Suc.prems(1)]
      d_of_int_exact [OF t53] d_of_int_exact [OF tt53]
    using le ih by simp
qed

lemma underflow_metrics:
  "calculate_bond_metrics_ieee
     \<lparr>face_value = Finite 1000, coupon_rate = Finite 0, ytm = Finite 12, periods = 100,
      frequency = 12\<rparr> =
   \<lparr>price = Finite 0, macaulay_duration = NaN, modified_duration = NaN, convexity = NaN,
    dv01 = NaN, yield_to_maturity = Finite 12\<rparr>"
proof -
  have f: "d_of_int 12 = Finite 12"
    using d_of_int_exact [of 12] by simp
  have one: "rnd 1 = Finite 1"
    using rnd_int [of 1] by simp
  have two: "rnd 2 = Finite 2"
    using rnd_int [of 2] by simp
  have half: "rnd (1 / 2) = Finite (1 / 2)"
    using rnd_pow2 [of "- 1"] by (simp add: power_int_minus)
  have h1: "halved 1 = 1 / 2"
    by (simp add: halved_def power_int_minus)
  have loop: "bond_loop_ieee (Finite 1000) (Finite 0) (Finite (1 / 2)) 1200 1
      (Finite 0) (Finite 0) (Finite 0) (Finite (1 / 2)) = (Finite 0, Finite 0, Finite 0)"
    using underflow_loop [of 1] by (simp add: h1)
  show ?thesis
    by (simp add: calculate_bond_metrics_ieee_def f one two half loop)
qed

text \<open>
  Against C6, in the arithmetic of the machine: face value 1000, coupon rate 0, yield 12
  (1200 percent), 100 years and 12 payments a year satisfy the preconditions. The yield per
  period is 1 and the discount factor \<open>1 / 2\<close>; \<open>pv_factor\<close> is halved 1200 times and is 0
  from the 1075th period on, so the redemption of the last period is discounted to 0. The
  accumulated price is 0, the divisor \<open>price * frequency\<close> is 0, and the four derived
  metrics are NaN.
\<close>

theorem underflow_price_zero:
  "valid_params_ieee
     \<lparr>face_value = Finite 1000, coupon_rate = Finite 0, ytm = Finite 12, periods = 100,
      frequency = 12\<rparr> \<and>
   valid_params
     \<lparr>face_value = 1000, coupon_rate = 0, ytm = 12, periods = 100, frequency = 12\<rparr> \<and>
   calculate_bond_metrics_ieee
     \<lparr>face_value = Finite 1000, coupon_rate = Finite 0, ytm = Finite 12, periods = 100,
      frequency = 12\<rparr> =
   \<lparr>price = Finite 0, macaulay_duration = NaN, modified_duration = NaN, convexity = NaN,
    dv01 = NaN, yield_to_maturity = Finite 12\<rparr> \<and>
   \<not> dlt (Finite 0)
     (price (calculate_bond_metrics_ieee
        \<lparr>face_value = Finite 1000, coupon_rate = Finite 0, ytm = Finite 12, periods = 100,
         frequency = 12\<rparr>))"
  by (simp add: underflow_metrics valid_params_ieee_def valid_params_def)

text \<open>
  Against C10, in the arithmetic of the machine: with face value 1000, coupon rate 0, yield
  12, 100 years and 12 payments a year, which satisfy the preconditions, the convexity and
  the DV01 are NaN, and neither is greater than 0.
\<close>

theorem underflow_convexity_dv01_nan:
  "valid_params_ieee
     \<lparr>face_value = Finite 1000, coupon_rate = Finite 0, ytm = Finite 12, periods = 100,
      frequency = 12\<rparr> \<and>
   convexity (calculate_bond_metrics_ieee
     \<lparr>face_value = Finite 1000, coupon_rate = Finite 0, ytm = Finite 12, periods = 100,
      frequency = 12\<rparr>) = NaN \<and>
   dv01 (calculate_bond_metrics_ieee
     \<lparr>face_value = Finite 1000, coupon_rate = Finite 0, ytm = Finite 12, periods = 100,
      frequency = 12\<rparr>) = NaN \<and>
   \<not> dlt (Finite 0) (convexity (calculate_bond_metrics_ieee
     \<lparr>face_value = Finite 1000, coupon_rate = Finite 0, ytm = Finite 12, periods = 100,
      frequency = 12\<rparr>)) \<and>
   \<not> dlt (Finite 0) (dv01 (calculate_bond_metrics_ieee
     \<lparr>face_value = Finite 1000, coupon_rate = Finite 0, ytm = Finite 12, periods = 100,
      frequency = 12\<rparr>))"
  unfolding underflow_metrics by (simp add: valid_params_ieee_def valid_params_def)

section \<open>IEEE arithmetic: the last cash flow overflows\<close>

lemma overflow_loop:
  "bond_loop_ieee (Finite (2 ^ 1023)) (Finite (2 ^ 1023)) (Finite d) 1 1
     (Finite 0) (Finite 0) (Finite 0) (Finite d) = (PInf, PInf, PInf)"
  if "0 < d" for d
  unfolding bond_loop_ieee.simps [of _ _ _ 1 1] Let_def
  using that rnd_overflow d_of_int_exact [of 1] d_of_int_exact [of 2]
  by (simp add: signed_inf_def bond_loop_ieee.simps [of _ _ _ 1 2])

lemma overflow_par_metrics:
  "calculate_bond_metrics_ieee
     \<lparr>face_value = Finite (2 ^ 1023), coupon_rate = Finite 1, ytm = Finite 1, periods = 1,
      frequency = 1\<rparr> =
   \<lparr>price = PInf, macaulay_duration = NaN, modified_duration = NaN, convexity = NaN,
    dv01 = NaN, yield_to_maturity = Finite 1\<rparr>"
  unfolding calculate_bond_metrics_ieee_def
  using d_of_int_exact [of 1] rnd_int [of 1] rnd_int [of 2] rnd_half rnd_greatest_power
    overflow_loop [of "1 / 2"]
  by (simp add: Let_def signed_inf_def)

lemma overflow_zero_yield_metrics:
  "calculate_bond_metrics_ieee
     \<lparr>face_value = Finite (2 ^ 1023), coupon_rate = Finite 1, ytm = Finite 0, periods = 1,
      frequency = 1\<rparr> =
   \<lparr>price = PInf, macaulay_duration = NaN, modified_duration = NaN, convexity = NaN,
    dv01 = NaN, yield_to_maturity = Finite 0\<rparr>"
  unfolding calculate_bond_metrics_ieee_def
  using d_of_int_exact [of 1] rnd_int [of 1] rnd_int [of 0] rnd_greatest_power
    overflow_loop [of 1]
  by (simp add: Let_def signed_inf_def)

text \<open>
  Against C1, in the arithmetic of the machine: face value \<open>2 ^ 1023\<close>, coupon rate 1,
  yield 1, one year and one payment a year satisfy the preconditions, and the coupon rate
  equals the yield. The last cash flow \<open>coupon_pmt + face_value\<close> is \<open>2 ^ 1024\<close>, which
  overflows to infinity, and so does the price: it is not the face value, within no
  tolerance.
\<close>

theorem overflow_par_price:
  "valid_params_ieee
     \<lparr>face_value = Finite (2 ^ 1023), coupon_rate = Finite 1, ytm = Finite 1, periods = 1,
      frequency = 1\<rparr> \<and>
   price (calculate_bond_metrics_ieee
     \<lparr>face_value = Finite (2 ^ 1023), coupon_rate = Finite 1, ytm = Finite 1, periods = 1,
      frequency = 1\<rparr>) = PInf \<and>
   price (calculate_bond_metrics_ieee
     \<lparr>face_value = Finite (2 ^ 1023), coupon_rate = Finite 1, ytm = Finite 1, periods = 1,
      frequency = 1\<rparr>) \<noteq> Finite (2 ^ 1023)"
  unfolding overflow_par_metrics by (simp add: valid_params_ieee_def valid_params_def)

section \<open>IEEE arithmetic: rounding at ordinary inputs\<close>

lemma rnd_five_percent: "rnd (5 / 100) = Finite (3602879701896397 / 72057594037927936)"
  using rnd_at [of "- 5" "5 / 100" 7205759403792794] by simp

lemma rnd_five_percent_up: "rnd (5000000000000001 / 10 ^ 17) = Finite (7205759403792795 / 144115188075855872)"
  using rnd_at [of "- 5" "5000000000000001 / 10 ^ 17" 7205759403792795] by simp

lemma rnd_two_percent: "rnd (2 / 100) = Finite (5764607523034235 / 288230376151711744)"
  using rnd_at [of "- 6" "2 / 100" 5764607523034235] by simp

lemma premium_tie_loop:
  "\<exists>cs. bond_loop_ieee (Finite (1000)) (Finite (7036874417766401 / 140737488355328)) (Finite (4289142502257615 / 4503599627370496)) 1 1 (Finite 0) (Finite 0) (Finite 0) (Finite (4289142502257615 / 4503599627370496)) =
     (Finite (1000), Finite (1000), cs)"
proof -
  have s1: "\<And>cs. bond_loop_ieee (Finite (1000)) (Finite (7036874417766401 / 140737488355328)) (Finite (4289142502257615 / 4503599627370496)) 1 1 (Finite (0)) (Finite (0)) cs (Finite (4289142502257615 / 4503599627370496)) =
      bond_loop_ieee (Finite (1000)) (Finite (7036874417766401 / 140737488355328)) (Finite (4289142502257615 / 4503599627370496)) 1 2 (Finite (1000)) (Finite (1000))
        (dadd cs (dmul (d_of_int 2) (Finite (1000)))) (Finite (8169795242395457 / 9007199254740992))"
    unfolding bond_loop_ieee.simps [of _ _ _ 1 1]
    using rnd_at [of 10 "(7036874417766401 / 140737488355328) + (1000)" 4617948836659200]
      rnd_at [of 9 "(1050) * (4289142502257615 / 4503599627370496)" 8796093022208000]
      rnd_at [of 9 "(0) + (1000)" 8796093022208000]
      rnd_at [of 9 "(1) * (1000)" 8796093022208000]
      rnd_at [of "- 1" "(4289142502257615 / 4503599627370496) * (4289142502257615 / 4503599627370496)" 8169795242395457]
      d_of_int_exact [of 1]
    by (simp add: Let_def)
  show ?thesis
    unfolding s1
    by (simp add: bond_loop_ieee.simps [of _ _ _ 1 2])
qed

lemma premium_tie_metrics:
  "price (calculate_bond_metrics_ieee
       \<lparr>face_value = Finite (1000), coupon_rate = Finite (7205759403792795 / 144115188075855872), ytm = Finite (3602879701896397 / 72057594037927936),
        periods = 1, frequency = 1\<rparr>) = Finite (1000)"
  "macaulay_duration (calculate_bond_metrics_ieee
       \<lparr>face_value = Finite (1000), coupon_rate = Finite (7205759403792795 / 144115188075855872), ytm = Finite (3602879701896397 / 72057594037927936),
        periods = 1, frequency = 1\<rparr>) = Finite (1)"
proof -
  obtain cs where loop:
    "bond_loop_ieee (Finite (1000)) (Finite (7036874417766401 / 140737488355328)) (Finite (4289142502257615 / 4503599627370496)) 1 1 (Finite 0) (Finite 0) (Finite 0) (Finite (4289142502257615 / 4503599627370496)) =
       (Finite (1000), Finite (1000), cs)"
    using premium_tie_loop by blast
  note facts =
    rnd_at [of "- 5" "(7205759403792795 / 144115188075855872) / (1)" 7205759403792795]
    rnd_at [of "- 5" "(3602879701896397 / 72057594037927936) / (1)" 7205759403792794]
    rnd_at [of 5 "(1000) * (7205759403792795 / 144115188075855872)" 7036874417766401]
    rnd_at [of 0 "(1) + (3602879701896397 / 72057594037927936)" 4728779608739021]
    rnd_at [of "- 1" "(1) / (4728779608739021 / 4503599627370496)" 8578285004515230]
    rnd_at [of 9 "(1000) * (1)" 8796093022208000]
    rnd_at [of 0 "(1000) / (1000)" 4503599627370496]
    d_of_int_exact [of 1]
  show "price (calculate_bond_metrics_ieee
       \<lparr>face_value = Finite (1000), coupon_rate = Finite (7205759403792795 / 144115188075855872), ytm = Finite (3602879701896397 / 72057594037927936),
        periods = 1, frequency = 1\<rparr>) = Finite (1000)"
    unfolding calculate_bond_metrics_ieee_def using facts by (simp add: Let_def loop)
  show "macaulay_duration (calculate_bond_metrics_ieee
       \<lparr>face_value = Finite (1000), coupon_rate = Finite (7205759403792795 / 144115188075855872), ytm = Finite (3602879701896397 / 72057594037927936),
        periods = 1, frequency = 1\<rparr>) = Finite (1)"
    unfolding calculate_bond_metrics_ieee_def using facts by (simp add: Let_def loop)
qed

lemma discount_tie_loop:
  "\<exists>cs. bond_loop_ieee (Finite (1000)) (Finite (50)) (Finite (4289142502257615 / 4503599627370496)) 1 1 (Finite 0) (Finite 0) (Finite 0) (Finite (4289142502257615 / 4503599627370496)) =
     (Finite (1000), Finite (1000), cs)"
proof -
  have s1: "\<And>cs. bond_loop_ieee (Finite (1000)) (Finite (50)) (Finite (4289142502257615 / 4503599627370496)) 1 1 (Finite (0)) (Finite (0)) cs (Finite (4289142502257615 / 4503599627370496)) =
      bond_loop_ieee (Finite (1000)) (Finite (50)) (Finite (4289142502257615 / 4503599627370496)) 1 2 (Finite (1000)) (Finite (1000))
        (dadd cs (dmul (d_of_int 2) (Finite (1000)))) (Finite (8169795242395457 / 9007199254740992))"
    unfolding bond_loop_ieee.simps [of _ _ _ 1 1]
    using rnd_at [of 10 "(50) + (1000)" 4617948836659200]
      rnd_at [of 9 "(1050) * (4289142502257615 / 4503599627370496)" 8796093022208000]
      rnd_at [of 9 "(0) + (1000)" 8796093022208000]
      rnd_at [of 9 "(1) * (1000)" 8796093022208000]
      rnd_at [of "- 1" "(4289142502257615 / 4503599627370496) * (4289142502257615 / 4503599627370496)" 8169795242395457]
      d_of_int_exact [of 1]
    by (simp add: Let_def)
  show ?thesis
    unfolding s1
    by (simp add: bond_loop_ieee.simps [of _ _ _ 1 2])
qed

lemma discount_tie_metrics:
  "price (calculate_bond_metrics_ieee
       \<lparr>face_value = Finite (1000), coupon_rate = Finite (3602879701896397 / 72057594037927936), ytm = Finite (7205759403792795 / 144115188075855872),
        periods = 1, frequency = 1\<rparr>) = Finite (1000)"
  "macaulay_duration (calculate_bond_metrics_ieee
       \<lparr>face_value = Finite (1000), coupon_rate = Finite (3602879701896397 / 72057594037927936), ytm = Finite (7205759403792795 / 144115188075855872),
        periods = 1, frequency = 1\<rparr>) = Finite (1)"
proof -
  obtain cs where loop:
    "bond_loop_ieee (Finite (1000)) (Finite (50)) (Finite (4289142502257615 / 4503599627370496)) 1 1 (Finite 0) (Finite 0) (Finite 0) (Finite (4289142502257615 / 4503599627370496)) =
       (Finite (1000), Finite (1000), cs)"
    using discount_tie_loop by blast
  note facts =
    rnd_at [of "- 5" "(3602879701896397 / 72057594037927936) / (1)" 7205759403792794]
    rnd_at [of "- 5" "(7205759403792795 / 144115188075855872) / (1)" 7205759403792795]
    rnd_at [of 5 "(1000) * (3602879701896397 / 72057594037927936)" 7036874417766400]
    rnd_at [of 0 "(1) + (7205759403792795 / 144115188075855872)" 4728779608739021]
    rnd_at [of "- 1" "(1) / (4728779608739021 / 4503599627370496)" 8578285004515230]
    rnd_at [of 9 "(1000) * (1)" 8796093022208000]
    rnd_at [of 0 "(1000) / (1000)" 4503599627370496]
    d_of_int_exact [of 1]
  show "price (calculate_bond_metrics_ieee
       \<lparr>face_value = Finite (1000), coupon_rate = Finite (3602879701896397 / 72057594037927936), ytm = Finite (7205759403792795 / 144115188075855872),
        periods = 1, frequency = 1\<rparr>) = Finite (1000)"
    unfolding calculate_bond_metrics_ieee_def using facts by (simp add: Let_def loop)
  show "macaulay_duration (calculate_bond_metrics_ieee
       \<lparr>face_value = Finite (1000), coupon_rate = Finite (3602879701896397 / 72057594037927936), ytm = Finite (7205759403792795 / 144115188075855872),
        periods = 1, frequency = 1\<rparr>) = Finite (1)"
    unfolding calculate_bond_metrics_ieee_def using facts by (simp add: Let_def loop)
qed

lemma par_one_year_loop:
  "\<exists>cs. bond_loop_ieee (Finite (1000)) (Finite (50)) (Finite (4289142502257615 / 4503599627370496)) 1 1 (Finite 0) (Finite 0) (Finite 0) (Finite (4289142502257615 / 4503599627370496)) =
     (Finite (1000), Finite (1000), cs)"
proof -
  have s1: "\<And>cs. bond_loop_ieee (Finite (1000)) (Finite (50)) (Finite (4289142502257615 / 4503599627370496)) 1 1 (Finite (0)) (Finite (0)) cs (Finite (4289142502257615 / 4503599627370496)) =
      bond_loop_ieee (Finite (1000)) (Finite (50)) (Finite (4289142502257615 / 4503599627370496)) 1 2 (Finite (1000)) (Finite (1000))
        (dadd cs (dmul (d_of_int 2) (Finite (1000)))) (Finite (8169795242395457 / 9007199254740992))"
    unfolding bond_loop_ieee.simps [of _ _ _ 1 1]
    using rnd_at [of 10 "(50) + (1000)" 4617948836659200]
      rnd_at [of 9 "(1050) * (4289142502257615 / 4503599627370496)" 8796093022208000]
      rnd_at [of 9 "(0) + (1000)" 8796093022208000]
      rnd_at [of 9 "(1) * (1000)" 8796093022208000]
      rnd_at [of "- 1" "(4289142502257615 / 4503599627370496) * (4289142502257615 / 4503599627370496)" 8169795242395457]
      d_of_int_exact [of 1]
    by (simp add: Let_def)
  show ?thesis
    unfolding s1
    by (simp add: bond_loop_ieee.simps [of _ _ _ 1 2])
qed

lemma par_one_year_metrics:
  "price (calculate_bond_metrics_ieee
       \<lparr>face_value = Finite (1000), coupon_rate = Finite (3602879701896397 / 72057594037927936), ytm = Finite (3602879701896397 / 72057594037927936),
        periods = 1, frequency = 1\<rparr>) = Finite (1000)"
  "macaulay_duration (calculate_bond_metrics_ieee
       \<lparr>face_value = Finite (1000), coupon_rate = Finite (3602879701896397 / 72057594037927936), ytm = Finite (3602879701896397 / 72057594037927936),
        periods = 1, frequency = 1\<rparr>) = Finite (1)"
proof -
  obtain cs where loop:
    "bond_loop_ieee (Finite (1000)) (Finite (50)) (Finite (4289142502257615 / 4503599627370496)) 1 1 (Finite 0) (Finite 0) (Finite 0) (Finite (4289142502257615 / 4503599627370496)) =
       (Finite (1000), Finite (1000), cs)"
    using par_one_year_loop by blast
  note facts =
    rnd_at [of "- 5" "(3602879701896397 / 72057594037927936) / (1)" 7205759403792794]
    rnd_at [of 5 "(1000) * (3602879701896397 / 72057594037927936)" 7036874417766400]
    rnd_at [of 0 "(1) + (3602879701896397 / 72057594037927936)" 4728779608739021]
    rnd_at [of "- 1" "(1) / (4728779608739021 / 4503599627370496)" 8578285004515230]
    rnd_at [of 9 "(1000) * (1)" 8796093022208000]
    rnd_at [of 0 "(1000) / (1000)" 4503599627370496]
    d_of_int_exact [of 1]
  show "price (calculate_bond_metrics_ieee
       \<lparr>face_value = Finite (1000), coupon_rate = Finite (3602879701896397 / 72057594037927936), ytm = Finite (3602879701896397 / 72057594037927936),
        periods = 1, frequency = 1\<rparr>) = Finite (1000)"
    unfolding calculate_bond_metrics_ieee_def using facts by (simp add: Let_def loop)
  show "macaulay_duration (calculate_bond_metrics_ieee
       \<lparr>face_value = Finite (1000), coupon_rate = Finite (3602879701896397 / 72057594037927936), ytm = Finite (3602879701896397 / 72057594037927936),
        periods = 1, frequency = 1\<rparr>) = Finite (1)"
    unfolding calculate_bond_metrics_ieee_def using facts by (simp add: Let_def loop)
qed

lemma zero_three_years_loop:
  "\<exists>cs. bond_loop_ieee (Finite (1000)) (Finite (0)) (Finite (8830587504648031 / 9007199254740992)) 3 1 (Finite 0) (Finite 0) (Finite 0) (Finite (8830587504648031 / 9007199254740992)) =
     (Finite (4144377455790005 / 4398046511104), Finite (388535386480313 / 137438953472), cs)"
proof -
  have s1: "\<And>cs. bond_loop_ieee (Finite (1000)) (Finite (0)) (Finite (8830587504648031 / 9007199254740992)) 3 1 (Finite (0)) (Finite (0)) cs (Finite (8830587504648031 / 9007199254740992)) =
      bond_loop_ieee (Finite (1000)) (Finite (0)) (Finite (8830587504648031 / 9007199254740992)) 3 2 (Finite (0)) (Finite (0))
        (dadd cs (dmul (d_of_int 2) (Finite (0)))) (Finite (8657438730047089 / 9007199254740992))"
    unfolding bond_loop_ieee.simps [of _ _ _ 3 1]
    using rnd_at [of "- 1" "(8830587504648031 / 9007199254740992) * (8830587504648031 / 9007199254740992)" 8657438730047089]
      d_of_int_exact [of 1]
    by (simp add: Let_def)
  have s2: "\<And>cs. bond_loop_ieee (Finite (1000)) (Finite (0)) (Finite (8830587504648031 / 9007199254740992)) 3 2 (Finite (0)) (Finite (0)) cs (Finite (8657438730047089 / 9007199254740992)) =
      bond_loop_ieee (Finite (1000)) (Finite (0)) (Finite (8830587504648031 / 9007199254740992)) 3 3 (Finite (0)) (Finite (0))
        (dadd cs (dmul (d_of_int 6) (Finite (0)))) (Finite (4243842514728965 / 4503599627370496))"
    unfolding bond_loop_ieee.simps [of _ _ _ 3 2]
    using rnd_at [of "- 1" "(8657438730047089 / 9007199254740992) * (8830587504648031 / 9007199254740992)" 8487685029457930]
      d_of_int_exact [of 2]
    by (simp add: Let_def)
  have s3: "\<And>cs. bond_loop_ieee (Finite (1000)) (Finite (0)) (Finite (8830587504648031 / 9007199254740992)) 3 3 (Finite (0)) (Finite (0)) cs (Finite (4243842514728965 / 4503599627370496)) =
      bond_loop_ieee (Finite (1000)) (Finite (0)) (Finite (8830587504648031 / 9007199254740992)) 3 4 (Finite (4144377455790005 / 4398046511104)) (Finite (388535386480313 / 137438953472))
        (dadd cs (dmul (d_of_int 12) (Finite (4144377455790005 / 4398046511104)))) (Finite (2080314958200473 / 2251799813685248))"
    unfolding bond_loop_ieee.simps [of _ _ _ 3 3]
    using rnd_at [of 9 "(0) + (1000)" 8796093022208000]
      rnd_at [of 9 "(1000) * (4243842514728965 / 4503599627370496)" 8288754911580010]
      rnd_at [of 9 "(0) + (4144377455790005 / 4398046511104)" 8288754911580010]
      rnd_at [of 11 "(3) * (4144377455790005 / 4398046511104)" 6216566183685008]
      rnd_at [of 11 "(0) + (388535386480313 / 137438953472)" 6216566183685008]
      rnd_at [of "- 1" "(4243842514728965 / 4503599627370496) * (8830587504648031 / 9007199254740992)" 8321259832801892]
      d_of_int_exact [of 3]
    by (simp add: Let_def)
  show ?thesis
    unfolding s1 s2 s3
    by (simp add: bond_loop_ieee.simps [of _ _ _ 3 4])
qed

lemma zero_three_years_metrics:
  "price (calculate_bond_metrics_ieee
       \<lparr>face_value = Finite (1000), coupon_rate = Finite (0), ytm = Finite (5764607523034235 / 288230376151711744),
        periods = 3, frequency = 1\<rparr>) = Finite (4144377455790005 / 4398046511104)"
  "macaulay_duration (calculate_bond_metrics_ieee
       \<lparr>face_value = Finite (1000), coupon_rate = Finite (0), ytm = Finite (5764607523034235 / 288230376151711744),
        periods = 3, frequency = 1\<rparr>) = Finite (6755399441055745 / 2251799813685248)"
proof -
  obtain cs where loop:
    "bond_loop_ieee (Finite (1000)) (Finite (0)) (Finite (8830587504648031 / 9007199254740992)) 3 1 (Finite 0) (Finite 0) (Finite 0) (Finite (8830587504648031 / 9007199254740992)) =
       (Finite (4144377455790005 / 4398046511104), Finite (388535386480313 / 137438953472), cs)"
    using zero_three_years_loop by blast
  note facts =
    rnd_at [of "- 6" "(5764607523034235 / 288230376151711744) / (1)" 5764607523034235]
    rnd_at [of 0 "(1) + (5764607523034235 / 288230376151711744)" 4593671619917906]
    rnd_at [of "- 1" "(1) / (2296835809958953 / 2251799813685248)" 8830587504648031]
    rnd_at [of 9 "(4144377455790005 / 4398046511104) * (1)" 8288754911580010]
    rnd_at [of 1 "(388535386480313 / 137438953472) / (4144377455790005 / 4398046511104)" 6755399441055745]
    rnd_at [of 1 "(6755399441055745 / 2251799813685248) / (2296835809958953 / 2251799813685248)" 6622940628486024]
    d_of_int_exact [of 1]
  show "price (calculate_bond_metrics_ieee
       \<lparr>face_value = Finite (1000), coupon_rate = Finite (0), ytm = Finite (5764607523034235 / 288230376151711744),
        periods = 3, frequency = 1\<rparr>) = Finite (4144377455790005 / 4398046511104)"
    unfolding calculate_bond_metrics_ieee_def using facts by (simp add: Let_def loop)
  show "macaulay_duration (calculate_bond_metrics_ieee
       \<lparr>face_value = Finite (1000), coupon_rate = Finite (0), ytm = Finite (5764607523034235 / 288230376151711744),
        periods = 3, frequency = 1\<rparr>) = Finite (6755399441055745 / 2251799813685248)"
    unfolding calculate_bond_metrics_ieee_def using facts by (simp add: Let_def loop)
qed

text \<open>
  Against C2, in the arithmetic of the machine. The \<^verbatim>\<open>double\<close> nearest to
  0.05000000000000001 is the successor of the one nearest to 0.05. With face value 1000,
  one year and one payment a year, the greater of the two as coupon rate and the smaller
  as yield give the price 1000 exactly, which is not above the face value; exchanged, they
  give the price 1000 again, which is not below it.
\<close>

theorem premium_discount_rounded_away:
  "rnd (5 / 100) = Finite (3602879701896397 / 72057594037927936) \<and>
   rnd (5000000000000001 / 10 ^ 17) = Finite (7205759403792795 / 144115188075855872) \<and>
   valid_params_ieee
     \<lparr>face_value = Finite 1000, coupon_rate = Finite (7205759403792795 / 144115188075855872),
      ytm = Finite (3602879701896397 / 72057594037927936), periods = 1, frequency = 1\<rparr> \<and>
   dlt (Finite (3602879701896397 / 72057594037927936))
     (Finite (7205759403792795 / 144115188075855872)) \<and>
   price (calculate_bond_metrics_ieee
     \<lparr>face_value = Finite 1000, coupon_rate = Finite (7205759403792795 / 144115188075855872),
      ytm = Finite (3602879701896397 / 72057594037927936), periods = 1, frequency = 1\<rparr>) =
     Finite 1000 \<and>
   \<not> dlt (Finite 1000) (price (calculate_bond_metrics_ieee
     \<lparr>face_value = Finite 1000, coupon_rate = Finite (7205759403792795 / 144115188075855872),
      ytm = Finite (3602879701896397 / 72057594037927936), periods = 1, frequency = 1\<rparr>)) \<and>
   valid_params_ieee
     \<lparr>face_value = Finite 1000, coupon_rate = Finite (3602879701896397 / 72057594037927936),
      ytm = Finite (7205759403792795 / 144115188075855872), periods = 1, frequency = 1\<rparr> \<and>
   price (calculate_bond_metrics_ieee
     \<lparr>face_value = Finite 1000, coupon_rate = Finite (3602879701896397 / 72057594037927936),
      ytm = Finite (7205759403792795 / 144115188075855872), periods = 1, frequency = 1\<rparr>) =
     Finite 1000 \<and>
   \<not> dlt (price (calculate_bond_metrics_ieee
     \<lparr>face_value = Finite 1000, coupon_rate = Finite (3602879701896397 / 72057594037927936),
      ytm = Finite (7205759403792795 / 144115188075855872), periods = 1, frequency = 1\<rparr>))
     (Finite 1000)"
  unfolding premium_tie_metrics discount_tie_metrics rnd_five_percent rnd_five_percent_up
  by (simp add: valid_params_ieee_def valid_params_def)

text \<open>
  Against C3, in the arithmetic of the machine: with face value 1000, coupon rate the
  \<^verbatim>\<open>double\<close> nearest to 0.05, one year and one payment a year, the yield nearest to 0.05
  and the strictly greater yield nearest to 0.05000000000000001 both give the price 1000:
  the smaller yield does not give the strictly greater price.
\<close>

theorem price_equal_at_two_yields:
  "valid_params_ieee
     \<lparr>face_value = Finite 1000, coupon_rate = Finite (3602879701896397 / 72057594037927936),
      ytm = Finite (3602879701896397 / 72057594037927936), periods = 1, frequency = 1\<rparr> \<and>
   valid_params_ieee
     \<lparr>face_value = Finite 1000, coupon_rate = Finite (3602879701896397 / 72057594037927936),
      ytm = Finite (7205759403792795 / 144115188075855872), periods = 1, frequency = 1\<rparr> \<and>
   dlt (Finite (3602879701896397 / 72057594037927936))
     (Finite (7205759403792795 / 144115188075855872)) \<and>
   price (calculate_bond_metrics_ieee
     \<lparr>face_value = Finite 1000, coupon_rate = Finite (3602879701896397 / 72057594037927936),
      ytm = Finite (3602879701896397 / 72057594037927936), periods = 1, frequency = 1\<rparr>) =
     Finite 1000 \<and>
   price (calculate_bond_metrics_ieee
     \<lparr>face_value = Finite 1000, coupon_rate = Finite (3602879701896397 / 72057594037927936),
      ytm = Finite (7205759403792795 / 144115188075855872), periods = 1, frequency = 1\<rparr>) =
     Finite 1000 \<and>
   \<not> dlt
     (price (calculate_bond_metrics_ieee
        \<lparr>face_value = Finite 1000, coupon_rate = Finite (3602879701896397 / 72057594037927936),
         ytm = Finite (7205759403792795 / 144115188075855872), periods = 1, frequency = 1\<rparr>))
     (price (calculate_bond_metrics_ieee
        \<lparr>face_value = Finite 1000, coupon_rate = Finite (3602879701896397 / 72057594037927936),
         ytm = Finite (3602879701896397 / 72057594037927936), periods = 1, frequency = 1\<rparr>))"
  unfolding par_one_year_metrics discount_tie_metrics
  by (simp add: valid_params_ieee_def valid_params_def)

text \<open>
  Against C4, in the arithmetic of the machine. With face value 1000, coupon rate 0, yield
  the \<^verbatim>\<open>double\<close> nearest to 0.02, 3 years and one payment a year the Macaulay duration is
  \<open>3 + 1 / 2 ^ 51\<close>, which is more than \<open>periods\<close>. With face value \<open>2 ^ 1023\<close>, coupon
  rate 1, yield 0, one year and one payment a year the price overflows to infinity and the
  Macaulay duration is NaN, which is not greater than 0 although the coupon rate is
  positive.
\<close>

theorem duration_exceeds_periods:
  "rnd (2 / 100) = Finite (5764607523034235 / 288230376151711744) \<and>
   valid_params_ieee
     \<lparr>face_value = Finite 1000, coupon_rate = Finite 0,
      ytm = Finite (5764607523034235 / 288230376151711744), periods = 3, frequency = 1\<rparr> \<and>
   macaulay_duration (calculate_bond_metrics_ieee
     \<lparr>face_value = Finite 1000, coupon_rate = Finite 0,
      ytm = Finite (5764607523034235 / 288230376151711744), periods = 3, frequency = 1\<rparr>) =
     Finite (3 + 1 / 2 ^ 51) \<and>
   \<not> dle (macaulay_duration (calculate_bond_metrics_ieee
     \<lparr>face_value = Finite 1000, coupon_rate = Finite 0,
      ytm = Finite (5764607523034235 / 288230376151711744), periods = 3, frequency = 1\<rparr>))
     (d_of_int 3) \<and>
   valid_params_ieee
     \<lparr>face_value = Finite (2 ^ 1023), coupon_rate = Finite 1, ytm = Finite 0, periods = 1,
      frequency = 1\<rparr> \<and>
   dlt (Finite 0) (Finite 1) \<and>
   macaulay_duration (calculate_bond_metrics_ieee
     \<lparr>face_value = Finite (2 ^ 1023), coupon_rate = Finite 1, ytm = Finite 0, periods = 1,
      frequency = 1\<rparr>) = NaN \<and>
   \<not> dlt (Finite 0) (macaulay_duration (calculate_bond_metrics_ieee
     \<lparr>face_value = Finite (2 ^ 1023), coupon_rate = Finite 1, ytm = Finite 0, periods = 1,
      frequency = 1\<rparr>))"
  unfolding zero_three_years_metrics overflow_zero_yield_metrics rnd_two_percent
  using d_of_int_exact [of 3]
  by (simp add: valid_params_ieee_def valid_params_def)

text \<open>
  Against C5, in the arithmetic of the machine. With face value 1000, coupon rate 0, yield
  12, 100 years and 12 payments a year the price underflows to 0 and the Macaulay duration
  is NaN, not 100. With face value 1000, coupon rate 0, yield the \<^verbatim>\<open>double\<close> nearest to
  0.02, 3 years and one payment a year the Macaulay duration is \<open>3 + 1 / 2 ^ 51\<close>, not 3.
\<close>

theorem zero_coupon_duration_inexact:
  "valid_params_ieee
     \<lparr>face_value = Finite 1000, coupon_rate = Finite 0, ytm = Finite 12, periods = 100,
      frequency = 12\<rparr> \<and>
   macaulay_duration (calculate_bond_metrics_ieee
     \<lparr>face_value = Finite 1000, coupon_rate = Finite 0, ytm = Finite 12, periods = 100,
      frequency = 12\<rparr>) = NaN \<and>
   macaulay_duration (calculate_bond_metrics_ieee
     \<lparr>face_value = Finite 1000, coupon_rate = Finite 0, ytm = Finite 12, periods = 100,
      frequency = 12\<rparr>) \<noteq> d_of_int 100 \<and>
   rnd (2 / 100) = Finite (5764607523034235 / 288230376151711744) \<and>
   valid_params_ieee
     \<lparr>face_value = Finite 1000, coupon_rate = Finite 0,
      ytm = Finite (5764607523034235 / 288230376151711744), periods = 3, frequency = 1\<rparr> \<and>
   macaulay_duration (calculate_bond_metrics_ieee
     \<lparr>face_value = Finite 1000, coupon_rate = Finite 0,
      ytm = Finite (5764607523034235 / 288230376151711744), periods = 3, frequency = 1\<rparr>) =
     Finite (3 + 1 / 2 ^ 51) \<and>
   macaulay_duration (calculate_bond_metrics_ieee
     \<lparr>face_value = Finite 1000, coupon_rate = Finite 0,
      ytm = Finite (5764607523034235 / 288230376151711744), periods = 3, frequency = 1\<rparr>) \<noteq>
     d_of_int 3"
  unfolding underflow_metrics zero_three_years_metrics rnd_two_percent
  using d_of_int_exact [of 100] d_of_int_exact [of 3]
  by (simp add: valid_params_ieee_def valid_params_def)

section \<open>IEEE arithmetic: the concrete scenario\<close>

lemma scenario_setup:
  "ddiv (Finite (3602879701896397 / 72057594037927936)) (Finite 1) = Finite (3602879701896397 / 72057594037927936)"
  "dmul (Finite 1000) (Finite (3602879701896397 / 72057594037927936)) = Finite (50)"
  "dadd (Finite 1) (Finite (3602879701896397 / 72057594037927936)) = Finite (4728779608739021 / 4503599627370496)"
  "ddiv (Finite 1) (Finite (4728779608739021 / 4503599627370496)) = Finite (4289142502257615 / 4503599627370496)"
  using rnd_at [of "- 5" "(3602879701896397 / 72057594037927936) / (1)" 7205759403792794]
    rnd_at [of 5 "(1000) * (3602879701896397 / 72057594037927936)" 7036874417766400]
    rnd_at [of 0 "(1) + (3602879701896397 / 72057594037927936)" 4728779608739021]
    rnd_at [of "- 1" "(1) / (4728779608739021 / 4503599627370496)" 8578285004515230]
  by simp_all

lemma scenario_step_1:
  "bond_loop_ieee (Finite 1000) (Finite (50)) (Finite (4289142502257615 / 4503599627370496)) 10 1 (Finite (0)) (Finite (0)) cs (Finite (4289142502257615 / 4503599627370496)) =
   bond_loop_ieee (Finite 1000) (Finite (50)) (Finite (4289142502257615 / 4503599627370496)) 10 2 (Finite (6701785159777523 / 140737488355328)) (Finite (6701785159777523 / 140737488355328))
     (dadd cs (dmul (d_of_int 2) (Finite (6701785159777523 / 140737488355328)))) (Finite (8169795242395457 / 9007199254740992))"
  unfolding bond_loop_ieee.simps [of _ _ _ 10 1]
  using rnd_at [of 5 "(50) * (4289142502257615 / 4503599627370496)" 6701785159777523]
    rnd_at [of 5 "(1) * (6701785159777523 / 140737488355328)" 6701785159777523]
    rnd_at [of 5 "6701785159777523 / 140737488355328" 6701785159777523]
    rnd_at [of 5 "6701785159777523 / 140737488355328" 6701785159777523]
    rnd_at [of "- 1" "(4289142502257615 / 4503599627370496) * (4289142502257615 / 4503599627370496)" 8169795242395457]
    d_of_int_exact [of 1]
  by (simp add: Let_def)

lemma scenario_step_2:
  "bond_loop_ieee (Finite 1000) (Finite (50)) (Finite (4289142502257615 / 4503599627370496)) 10 2 (Finite (6701785159777523 / 140737488355328)) (Finite (6701785159777523 / 140737488355328)) cs (Finite (8169795242395457 / 9007199254740992)) =
   bond_loop_ieee (Finite 1000) (Finite (50)) (Finite (4289142502257615 / 4503599627370496)) 10 3 (Finite (6542218846449487 / 70368744177664)) (Finite (2433386278252553 / 17592186044416))
     (dadd cs (dmul (d_of_int 6) (Finite (6382652533121451 / 140737488355328)))) (Finite (7780757373709959 / 9007199254740992))"
  unfolding bond_loop_ieee.simps [of _ _ _ 10 2]
  using rnd_at [of 5 "(50) * (8169795242395457 / 9007199254740992)" 6382652533121451]
    rnd_at [of 6 "(6701785159777523 / 140737488355328) + (6382652533121451 / 140737488355328)" 6542218846449487]
    rnd_at [of 6 "(2) * (6382652533121451 / 140737488355328)" 6382652533121451]
    rnd_at [of 7 "(6701785159777523 / 140737488355328) + (6382652533121451 / 70368744177664)" 4866772556505106]
    rnd_at [of "- 1" "(8169795242395457 / 9007199254740992) * (4289142502257615 / 4503599627370496)" 7780757373709959]
    d_of_int_exact [of 2]
  by (simp add: Let_def)

lemma scenario_step_3:
  "bond_loop_ieee (Finite 1000) (Finite (50)) (Finite (4289142502257615 / 4503599627370496)) 10 3 (Finite (6542218846449487 / 70368744177664)) (Finite (2433386278252553 / 17592186044416)) cs (Finite (7780757373709959 / 9007199254740992)) =
   bond_loop_ieee (Finite 1000) (Finite (50)) (Finite (4289142502257615 / 4503599627370496)) 10 4 (Finite (2395394298888735 / 17592186044416)) (Finite (2356452520040821 / 8796093022208))
     (dadd cs (dmul (d_of_int 12) (Finite (6078716698210905 / 140737488355328)))) (Finite (57892539982961 / 70368744177664))"
  unfolding bond_loop_ieee.simps [of _ _ _ 10 3]
  using rnd_at [of 5 "(50) * (7780757373709959 / 9007199254740992)" 6078716698210905]
    rnd_at [of 7 "(6542218846449487 / 70368744177664) + (6078716698210905 / 140737488355328)" 4790788597777470]
    rnd_at [of 7 "(3) * (6078716698210905 / 140737488355328)" 4559037523658179]
    rnd_at [of 8 "(2433386278252553 / 17592186044416) + (4559037523658179 / 35184372088832)" 4712905040081642]
    rnd_at [of "- 1" "(7780757373709959 / 9007199254740992) * (4289142502257615 / 4503599627370496)" 7410245117819008]
    d_of_int_exact [of 3]
  by (simp add: Let_def)

lemma scenario_step_4:
  "bond_loop_ieee (Finite 1000) (Finite (50)) (Finite (4289142502257615 / 4503599627370496)) 10 4 (Finite (2395394298888735 / 17592186044416)) (Finite (2356452520040821 / 8796093022208)) cs (Finite (57892539982961 / 70368744177664)) =
   bond_loop_ieee (Finite 1000) (Finite (50)) (Finite (4289142502257615 / 4503599627370496)) 10 5 (Finite (6238102097351495 / 35184372088832)) (Finite (1901883009807423 / 4398046511104))
     (dadd cs (dmul (d_of_int 20) (Finite (1447313499574025 / 35184372088832)))) (Finite (7057376302684769 / 9007199254740992))"
  unfolding bond_loop_ieee.simps [of _ _ _ 10 4]
  using rnd_at [of 5 "(50) * (57892539982961 / 70368744177664)" 5789253998296100]
    rnd_at [of 7 "(2395394298888735 / 17592186044416) + (1447313499574025 / 35184372088832)" 6238102097351495]
    rnd_at [of 7 "(4) * (1447313499574025 / 35184372088832)" 5789253998296100]
    rnd_at [of 8 "(2356452520040821 / 8796093022208) + (1447313499574025 / 8796093022208)" 7607532039229692]
    rnd_at [of "- 1" "(57892539982961 / 70368744177664) * (4289142502257615 / 4503599627370496)" 7057376302684769]
    d_of_int_exact [of 4]
  by (simp add: Let_def)

lemma scenario_step_5:
  "bond_loop_ieee (Finite 1000) (Finite (50)) (Finite (4289142502257615 / 4503599627370496)) 10 5 (Finite (6238102097351495 / 35184372088832)) (Finite (1901883009807423 / 4398046511104)) cs (Finite (7057376302684769 / 9007199254740992)) =
   bond_loop_ieee (Finite 1000) (Finite (50)) (Finite (4289142502257615 / 4503599627370496)) 10 6 (Finite (3808247953234807 / 17592186044416)) (Finite (5526758281012495 / 8796093022208))
     (dadd cs (dmul (d_of_int 30) (Finite (1378393809118119 / 35184372088832)))) (Finite (1680327691115421 / 2251799813685248))"
  unfolding bond_loop_ieee.simps [of _ _ _ 10 5]
  using rnd_at [of 5 "(50) * (7057376302684769 / 9007199254740992)" 5513575236472476]
    rnd_at [of 7 "(6238102097351495 / 35184372088832) + (1378393809118119 / 35184372088832)" 7616495906469614]
    rnd_at [of 7 "(5) * (1378393809118119 / 35184372088832)" 6891969045590595]
    rnd_at [of 9 "(1901883009807423 / 4398046511104) + (6891969045590595 / 35184372088832)" 5526758281012495]
    rnd_at [of "- 1" "(7057376302684769 / 9007199254740992) * (4289142502257615 / 4503599627370496)" 6721310764461684]
    d_of_int_exact [of 5]
  by (simp add: Let_def)

lemma scenario_step_6:
  "bond_loop_ieee (Finite 1000) (Finite (50)) (Finite (4289142502257615 / 4503599627370496)) 10 6 (Finite (3808247953234807 / 17592186044416)) (Finite (5526758281012495 / 8796093022208)) cs (Finite (1680327691115421 / 2251799813685248)) =
   bond_loop_ieee (Finite 1000) (Finite (50)) (Finite (4289142502257615 / 4503599627370496)) 10 7 (Finite (8929251915153537 / 35184372088832)) (Finite (7495892294038379 / 8796093022208))
     (dadd cs (dmul (d_of_int 42) (Finite (5251024034735691 / 140737488355328)))) (Finite (6401248347106365 / 9007199254740992))"
  unfolding bond_loop_ieee.simps [of _ _ _ 10 6]
  using rnd_at [of 5 "(50) * (1680327691115421 / 2251799813685248)" 5251024034735691]
    rnd_at [of 7 "(3808247953234807 / 17592186044416) + (5251024034735691 / 140737488355328)" 8929251915153537]
    rnd_at [of 7 "(6) * (5251024034735691 / 140737488355328)" 7876536052103536]
    rnd_at [of 9 "(5526758281012495 / 8796093022208) + (492283503256471 / 2199023255552)" 7495892294038379]
    rnd_at [of "- 1" "(1680327691115421 / 2251799813685248) * (4289142502257615 / 4503599627370496)" 6401248347106365]
    d_of_int_exact [of 6]
  by (simp add: Let_def)

lemma scenario_step_7:
  "bond_loop_ieee (Finite 1000) (Finite (50)) (Finite (4289142502257615 / 4503599627370496)) 10 7 (Finite (8929251915153537 / 35184372088832)) (Finite (7495892294038379 / 8796093022208)) cs (Finite (6401248347106365 / 9007199254740992)) =
   bond_loop_ieee (Finite 1000) (Finite (50)) (Finite (4289142502257615 / 4503599627370496)) 10 8 (Finite (2544873933236937 / 8796093022208)) (Finite (4841909487589125 / 4398046511104))
     (dadd cs (dmul (d_of_int 56) (Finite (312560954448553 / 8796093022208)))) (Finite (6096426997244157 / 9007199254740992))"
  unfolding bond_loop_ieee.simps [of _ _ _ 10 7]
  using rnd_at [of 5 "(50) * (6401248347106365 / 9007199254740992)" 5000975271176848]
    rnd_at [of 8 "(8929251915153537 / 35184372088832) + (312560954448553 / 8796093022208)" 5089747866473874]
    rnd_at [of 7 "(7) * (312560954448553 / 8796093022208)" 8751706724559484]
    rnd_at [of 10 "(7495892294038379 / 8796093022208) + (2187926681139871 / 8796093022208)" 4841909487589125]
    rnd_at [of "- 1" "(6401248347106365 / 9007199254740992) * (4289142502257615 / 4503599627370496)" 6096426997244157]
    d_of_int_exact [of 7]
  by (simp add: Let_def)

lemma scenario_step_8:
  "bond_loop_ieee (Finite 1000) (Finite (50)) (Finite (4289142502257615 / 4503599627370496)) 10 8 (Finite (2544873933236937 / 8796093022208)) (Finite (4841909487589125 / 4398046511104)) cs (Finite (6096426997244157 / 9007199254740992)) =
   bond_loop_ieee (Finite 1000) (Finite (50)) (Finite (4289142502257615 / 4503599627370496)) 10 9 (Finite (5685102065423499 / 17592186044416)) (Finite (3016308942744187 / 2199023255552))
     (dadd cs (dmul (d_of_int 72) (Finite (2381416795798499 / 70368744177664)))) (Finite (1451530237439085 / 2251799813685248))"
  unfolding bond_loop_ieee.simps [of _ _ _ 10 8]
  using rnd_at [of 5 "(50) * (6096426997244157 / 9007199254740992)" 4762833591596998]
    rnd_at [of 8 "(2544873933236937 / 8796093022208) + (2381416795798499 / 70368744177664)" 5685102065423499]
    rnd_at [of 8 "(8) * (2381416795798499 / 70368744177664)" 4762833591596998]
    rnd_at [of 10 "(4841909487589125 / 4398046511104) + (2381416795798499 / 8796093022208)" 6032617885488374]
    rnd_at [of "- 1" "(6096426997244157 / 9007199254740992) * (4289142502257615 / 4503599627370496)" 5806120949756340]
    d_of_int_exact [of 8]
  by (simp add: Let_def)

lemma scenario_step_9:
  "bond_loop_ieee (Finite 1000) (Finite (50)) (Finite (4289142502257615 / 4503599627370496)) 10 9 (Finite (5685102065423499 / 17592186044416)) (Finite (3016308942744187 / 2199023255552)) cs (Finite (1451530237439085 / 2251799813685248)) =
   bond_loop_ieee (Finite 1000) (Finite (50)) (Finite (4289142502257615 / 4503599627370496)) 10 10 (Finite (3126053032211571 / 8796093022208)) (Finite (3654188441618785 / 2199023255552))
     (dadd cs (dmul (d_of_int 90) (Finite (4536031991997141 / 140737488355328)))) (Finite (5529638999767943 / 9007199254740992))"
  unfolding bond_loop_ieee.simps [of _ _ _ 10 9]
  using rnd_at [of 5 "(50) * (1451530237439085 / 2251799813685248)" 4536031991997141]
    rnd_at [of 8 "(5685102065423499 / 17592186044416) + (4536031991997141 / 140737488355328)" 6252106064423142]
    rnd_at [of 8 "(9) * (4536031991997141 / 140737488355328)" 5103035990996784]
    rnd_at [of 10 "(3016308942744187 / 2199023255552) + (318939749437299 / 1099511627776)" 7308376883237570]
    rnd_at [of "- 1" "(1451530237439085 / 2251799813685248) * (4289142502257615 / 4503599627370496)" 5529638999767943]
    d_of_int_exact [of 9]
  by (simp add: Let_def)

lemma scenario_step_10:
  "bond_loop_ieee (Finite 1000) (Finite (50)) (Finite (4289142502257615 / 4503599627370496)) 10 10 (Finite (3126053032211571 / 8796093022208)) (Finite (3654188441618785 / 2199023255552)) cs (Finite (5529638999767943 / 9007199254740992)) =
   bond_loop_ieee (Finite 1000) (Finite (50)) (Finite (4289142502257615 / 4503599627370496)) 10 11 (Finite (8796093022207997 / 8796093022208)) (Finite (2228661052076231 / 274877906944))
     (dadd cs (dmul (d_of_int 110) (Finite (2835019994998213 / 4398046511104)))) (Finite (2633161428460925 / 4503599627370496))"
  unfolding bond_loop_ieee.simps [of _ _ _ 10 10]
  using rnd_at [of 10 "(50) + (1000)" 4617948836659200]
    rnd_at [of 9 "(1050) * (5529638999767943 / 9007199254740992)" 5670039989996426]
    rnd_at [of 9 "(3126053032211571 / 8796093022208) + (2835019994998213 / 4398046511104)" 8796093022207997]
    rnd_at [of 12 "(10) * (2835019994998213 / 4398046511104)" 7087549987495532]
    rnd_at [of 12 "(3654188441618785 / 2199023255552) + (1771887496873883 / 274877906944)" 8914644208304924]
    rnd_at [of "- 1" "(5529638999767943 / 9007199254740992) * (4289142502257615 / 4503599627370496)" 5266322856921850]
    d_of_int_exact [of 10]
  by (simp add: Let_def)

lemma scenario_loop:
  "\<exists>cs. bond_loop_ieee (Finite 1000) (Finite (50)) (Finite (4289142502257615 / 4503599627370496)) 10 1 (Finite 0) (Finite 0) (Finite 0) (Finite (4289142502257615 / 4503599627370496)) =
     (Finite (8796093022207997 / 8796093022208), Finite (2228661052076231 / 274877906944), cs)"
  unfolding scenario_step_1 scenario_step_2 scenario_step_3 scenario_step_4 scenario_step_5 scenario_step_6 scenario_step_7 scenario_step_8 scenario_step_9 scenario_step_10
  by (simp add: bond_loop_ieee.simps [of _ _ _ 10 11])

lemma scenario_final:
  "ddiv (Finite (2228661052076231 / 274877906944)) (dmul (Finite (8796093022207997 / 8796093022208)) (Finite 1)) = Finite (4564297834652123 / 562949953421312)"
  "ddiv (Finite (4564297834652123 / 562949953421312)) (Finite (4728779608739021 / 4503599627370496)) = Finite (8693900637432615 / 1125899906842624)"
  using rnd_at [of 9 "(8796093022207997 / 8796093022208) * (1)" 8796093022207997]
    rnd_at [of 3 "(2228661052076231 / 274877906944) / (8796093022207997 / 8796093022208)" 4564297834652123]
    rnd_at [of "- 5" "(3602879701896397 / 72057594037927936) / (1)" 7205759403792794]
    rnd_at [of 0 "(1) + (3602879701896397 / 72057594037927936)" 4728779608739021]
    rnd_at [of 2 "(4564297834652123 / 562949953421312) / (4728779608739021 / 4503599627370496)" 8693900637432615]
  by simp_all

text \<open>
  C7 (concrete scenario), in the arithmetic of the machine: for face value 1000, coupon
  rate and yield the \<^verbatim>\<open>double\<close> nearest to 0.05, 10 years and one payment a year, the
  calculator returns the price \<open>1000 - 3 / 2 ^ 43\<close>, which is within \<open>10 ^ - 9\<close> of 1000
  and is 1000.00 to the cent, a Macaulay duration that is 8.1078 and a modified duration
  that is 7.7217 to four decimal places.
\<close>

theorem par_bond_scenario:
  "price (calculate_bond_metrics_ieee
     \<lparr>face_value = Finite 1000, coupon_rate = rnd (5 / 100), ytm = rnd (5 / 100),
      periods = 10, frequency = 1\<rparr>) = Finite (1000 - 3 / 2 ^ 43) \<and>
   macaulay_duration (calculate_bond_metrics_ieee
     \<lparr>face_value = Finite 1000, coupon_rate = rnd (5 / 100), ytm = rnd (5 / 100),
      periods = 10, frequency = 1\<rparr>) = Finite (4564297834652123 / 562949953421312) \<and>
   modified_duration (calculate_bond_metrics_ieee
     \<lparr>face_value = Finite 1000, coupon_rate = rnd (5 / 100), ytm = rnd (5 / 100),
      periods = 10, frequency = 1\<rparr>) = Finite (8693900637432615 / 1125899906842624) \<and>
   \<bar>(1000 - 3 / 2 ^ 43) - 1000 :: real\<bar> < 1 / 10 ^ 9 \<and>
   \<bar>4564297834652123 / 562949953421312 - 81078 / 10000 :: real\<bar> < 5 / 100000 \<and>
   \<bar>8693900637432615 / 1125899906842624 - 77217 / 10000 :: real\<bar> < 5 / 100000"
proof -
  obtain cs where loop:
    "bond_loop_ieee (Finite 1000) (Finite (50)) (Finite (4289142502257615 / 4503599627370496)) 10 1 (Finite 0) (Finite 0) (Finite 0) (Finite (4289142502257615 / 4503599627370496)) =
       (Finite (8796093022207997 / 8796093022208), Finite (2228661052076231 / 274877906944), cs)"
    using scenario_loop by blast
  have one: "d_of_int 1 = Finite 1"
    using d_of_int_exact [of 1] by simp
  have m: "calculate_bond_metrics_ieee
       \<lparr>face_value = Finite 1000, coupon_rate = rnd (5 / 100), ytm = rnd (5 / 100),
        periods = 10, frequency = 1\<rparr> =
     \<lparr>price = Finite (8796093022207997 / 8796093022208),
      macaulay_duration = Finite (4564297834652123 / 562949953421312),
      modified_duration = Finite (8693900637432615 / 1125899906842624),
      convexity =
        ddiv cs (dmul (dmul (dmul (dmul (Finite (8796093022207997 / 8796093022208)) (Finite 1)) (Finite 1))
          (Finite (4728779608739021 / 4503599627370496))) (Finite (4728779608739021 / 4503599627370496))),
      dv01 = ddiv (dmul (Finite (8693900637432615 / 1125899906842624)) (Finite (8796093022207997 / 8796093022208))) (Finite 10000),
      yield_to_maturity = Finite (3602879701896397 / 72057594037927936)\<rparr>"
    unfolding calculate_bond_metrics_ieee_def rnd_five_percent
    by (simp only: Let_def BondParams.simps one scenario_setup mult_1_right loop prod.case
          scenario_final)
  show ?thesis
    unfolding m by simp
qed

section \<open>Validation of the command line\<close>

lemma parse_arguments_accepts_iff:
  "parse_arguments strtod strtol argv = Inr p \<longleftrightarrow>
     length argv = 6 \<and>
     conv_errno (strtod (argv ! 1)) = 0 \<and> conv_rest (strtod (argv ! 1)) = [] \<and>
     \<not> dle (conv_value (strtod (argv ! 1))) (Finite 0) \<and>
     conv_errno (strtod (argv ! 2)) = 0 \<and> conv_rest (strtod (argv ! 2)) = [] \<and>
     \<not> dlt (conv_value (strtod (argv ! 2))) (Finite 0) \<and>
     \<not> dlt (Finite 1) (conv_value (strtod (argv ! 2))) \<and>
     conv_errno (strtod (argv ! 3)) = 0 \<and> conv_rest (strtod (argv ! 3)) = [] \<and>
     \<not> dlt (conv_value (strtod (argv ! 3))) (Finite 0) \<and>
     conv_errno (strtol (argv ! 4)) = 0 \<and> conv_rest (strtol (argv ! 4)) = [] \<and>
     0 < conv_value (strtol (argv ! 4)) \<and> conv_value (strtol (argv ! 4)) \<le> 100 \<and>
     conv_errno (strtol (argv ! 5)) = 0 \<and> conv_rest (strtol (argv ! 5)) = [] \<and>
     conv_value (strtol (argv ! 5)) \<in> {1, 2, 4, 12} \<and>
     p = \<lparr>face_value = conv_value (strtod (argv ! 1)),
          coupon_rate = conv_value (strtod (argv ! 2)),
          ytm = conv_value (strtod (argv ! 3)),
          periods = conv_value (strtol (argv ! 4)),
          frequency = conv_value (strtol (argv ! 5))\<rparr>"
  unfolding parse_arguments_def Let_def
  by (auto simp: not_le not_less)

lemma main_rejects:
  assumes "parse_arguments strtod strtol argv = Inl e"
  shows "exit_code (main strtod strtol argv) = EXIT_FAILURE"
    and "exit_code (main strtod strtol argv) \<noteq> 0"
    and "calculated (main strtod strtol argv) = None"
    and "stderr_text (main strtod strtol argv) = error_message (program_name argv) e"
    and "error_message (program_name argv) e \<noteq> []"
  using assms
  by (simp_all add: main_def EXIT_FAILURE_def error_message_def split: parse_error.split)

lemma main_exit_success_iff:
  "exit_code (main strtod strtol argv) = 0 \<longleftrightarrow>
     (\<exists>p. parse_arguments strtod strtol argv = Inr p)"
  by (cases "parse_arguments strtod strtol argv")
     (simp_all add: main_def EXIT_FAILURE_def EXIT_SUCCESS_def)

lemma main_calculates:
  "calculated (main strtod strtol argv) = Some (p, m) \<longleftrightarrow>
     parse_arguments strtod strtol argv = Inr p \<and> m = calculate_bond_metrics_ieee p"
  by (cases "parse_arguments strtod strtol argv") (auto simp: main_def)

lemma dle_Finite_0:
  "\<not> dle v (Finite 0) \<longleftrightarrow> v = NaN \<or> v = PInf \<or> (\<exists>a. v = Finite a \<and> 0 < a)"
  by (cases v) auto

lemma accepted_finite_valid:
  assumes "parse_arguments strtod strtol argv = Inr p"
    and "face_value p = Finite a" and "coupon_rate p = Finite b" and "ytm p = Finite c"
  shows "valid_params
    \<lparr>face_value = a, coupon_rate = b, ytm = c, periods = periods p, frequency = frequency p\<rparr>"
proof -
  from assms(1) have acc:
    "\<not> dle (face_value p) (Finite 0)" "\<not> dlt (coupon_rate p) (Finite 0)"
    "\<not> dlt (Finite 1) (coupon_rate p)" "\<not> dlt (ytm p) (Finite 0)"
    "0 < periods p" "periods p \<le> 100" "frequency p \<in> {1, 2, 4, 12}"
    unfolding parse_arguments_accepts_iff by simp_all
  then show ?thesis
    using assms(2-4) by (simp add: valid_params_def)
qed

lemmas libc_eval =
  libc_strtod_def libc_strtol_def is_space_def is_digit_def digits_value_def digit_value_def
  to_lower_def scale10_def scale2_def is_xdigit_def xdigit_value_def xdigits_value_def
  converted_def below_min_def DBL_MIN_def LONG_MAX_def LONG_MIN_def Let_def

lemma strtod_nan: "libc_strtod ''nan'' = \<lparr>conv_value = NaN, conv_rest = [], conv_errno = 0\<rparr>"
  by (simp add: libc_eval)

lemma strtod_inf: "libc_strtod ''inf'' = \<lparr>conv_value = PInf, conv_rest = [], conv_errno = 0\<rparr>"
  by (simp add: libc_eval)

lemma strtod_empty: "libc_strtod [] = \<lparr>conv_value = Finite 0, conv_rest = [], conv_errno = 0\<rparr>"
  by (simp add: libc_eval)

lemma strtod_hexadecimal:
  "libc_strtod ''0x3E8'' = \<lparr>conv_value = Finite 1000, conv_rest = [], conv_errno = 0\<rparr>"
  "libc_strtod ''0x1.8p1z'' = \<lparr>conv_value = Finite 3, conv_rest = ''z'', conv_errno = 0\<rparr>"
  "libc_strtod ''0xg'' = \<lparr>conv_value = Finite 0, conv_rest = ''xg'', conv_errno = 0\<rparr>"
  using rnd_int [of 1000] rnd_int [of 3] by (simp_all add: libc_eval)

lemma strtod_1000:
  "libc_strtod ''1000'' = \<lparr>conv_value = Finite 1000, conv_rest = [], conv_errno = 0\<rparr>"
proof -
  have r: "rnd 1000 = Finite 1000"
    using rnd_int [of 1000] by simp
  show ?thesis
    by (simp add: libc_eval r)
qed

lemma strtod_2:
  "libc_strtod ''2'' = \<lparr>conv_value = Finite 2, conv_rest = [], conv_errno = 0\<rparr>"
proof -
  have r: "rnd 2 = Finite 2"
    using rnd_int [of 2] by simp
  show ?thesis
    by (simp add: libc_eval r)
qed

lemma strtod_half:
  "libc_strtod ''0.5'' = \<lparr>conv_value = Finite (1 / 2), conv_rest = [], conv_errno = 0\<rparr>"
  by (simp add: libc_eval rnd_half)

lemma strtod_quarter:
  "libc_strtod ''0.25'' = \<lparr>conv_value = Finite (1 / 4), conv_rest = [], conv_errno = 0\<rparr>"
  by (simp add: libc_eval rnd_quarter)

lemma strtol_10: "libc_strtol ''10'' = \<lparr>conv_value = 10, conv_rest = [], conv_errno = 0\<rparr>"
  by (simp add: libc_eval)

lemma strtol_1: "libc_strtol ''1'' = \<lparr>conv_value = 1, conv_rest = [], conv_errno = 0\<rparr>"
  by (simp add: libc_eval)

text \<open>A NaN face value makes every accumulator of the loop, and every metric, NaN.\<close>

lemma dadd_NaN_right [simp]: "dadd x NaN = NaN"
  by (cases x) simp_all

lemma dmul_NaN_right [simp]: "dmul x NaN = NaN"
  by (cases x) simp_all

lemma bond_loop_ieee_NaN:
  "t \<le> n \<Longrightarrow> bond_loop_ieee NaN NaN d n t p w c pf = (NaN, NaN, NaN)"
proof (induction "nat (n - t)" arbitrary: t p w c pf)
  case 0
  then have "t = n" by simp
  then show ?case
    by (simp add: bond_loop_ieee.simps [of _ _ _ n n] bond_loop_ieee.simps [of _ _ _ n "n + 1"])
next
  case (Suc k)
  then have "t + 1 \<le> n" "k = nat (n - (t + 1))" by simp_all
  from Suc.hyps(1) [OF this(2) this(1)] Suc.prems show ?case
    by (simp add: bond_loop_ieee.simps [of _ _ _ n t])
qed

lemma calculate_bond_metrics_ieee_NaN:
  assumes "face_value p = NaN" and "1 \<le> periods p * frequency p"
  shows "calculate_bond_metrics_ieee p =
     \<lparr>price = NaN, macaulay_duration = NaN, modified_duration = NaN, convexity = NaN,
      dv01 = NaN, yield_to_maturity = ytm p\<rparr>"
  using assms by (simp add: calculate_bond_metrics_ieee_def bond_loop_ieee_NaN)

text \<open>
  C9 (validation before calculation), at the command line
  \<^verbatim>\<open>bond_pricer nan 0.5 0.25 10 1\<close>: \<^verbatim>\<open>strtod\<close> converts \<^verbatim>\<open>nan\<close> to NaN with
  \<^verbatim>\<open>errno\<close> 0 and nothing left over, the test \<^verbatim>\<open>face_value <= 0\<close> is false on NaN, and
  the process calls the calculator with a face value that is not a number, reports a price
  and four metrics that are NaN, and exits 0.
\<close>

theorem main_accepts_nan_face_value:
  "main libc_strtod libc_strtol [''bond_pricer'', ''nan'', ''0.5'', ''0.25'', ''10'', ''1''] =
     \<lparr>exit_code = 0, stderr_text = [],
      calculated =
        Some (\<lparr>face_value = NaN, coupon_rate = Finite (1 / 2), ytm = Finite (1 / 4),
                periods = 10, frequency = 1\<rparr>,
              \<lparr>price = NaN, macaulay_duration = NaN, modified_duration = NaN,
                convexity = NaN, dv01 = NaN, yield_to_maturity = Finite (1 / 4)\<rparr>)\<rparr>"
  by (simp add: main_def parse_arguments_def strtod_nan strtod_half strtod_quarter strtol_10
        strtol_1 EXIT_SUCCESS_def calculate_bond_metrics_ieee_NaN)

text \<open>
  The same at \<^verbatim>\<open>bond_pricer 1000 "" "" 10 1\<close>: an empty argument is no number, yet
  \<^verbatim>\<open>strtod\<close> returns 0 for it and leaves \<^verbatim>\<open>endptr\<close> at the terminating zero, so it
  passes for a coupon rate and a yield of 0. And at \<^verbatim>\<open>bond_pricer inf 0.5 inf 10 1\<close>:
  an infinite face value and an infinite yield pass the range tests.
\<close>

lemma main_accepts_empty_arguments:
  "exit_code (main libc_strtod libc_strtol [''bond_pricer'', ''1000'', [], [], ''10'', ''1'']) = 0"
  "map_option fst
     (calculated (main libc_strtod libc_strtol [''bond_pricer'', ''1000'', [], [], ''10'', ''1''])) =
   Some \<lparr>face_value = Finite 1000, coupon_rate = Finite 0, ytm = Finite 0,
         periods = 10, frequency = 1\<rparr>"
  by (simp_all add: main_def parse_arguments_def strtod_1000 strtod_empty strtol_10 strtol_1
        EXIT_SUCCESS_def)

lemma main_accepts_infinities:
  "exit_code (main libc_strtod libc_strtol [''bond_pricer'', ''inf'', ''0.5'', ''inf'', ''10'', ''1''])
     = 0"
  "map_option fst
     (calculated
        (main libc_strtod libc_strtol [''bond_pricer'', ''inf'', ''0.5'', ''inf'', ''10'', ''1''])) =
   Some \<lparr>face_value = PInf, coupon_rate = Finite (1 / 2), ytm = PInf,
         periods = 10, frequency = 1\<rparr>"
  by (simp_all add: main_def parse_arguments_def strtod_inf strtod_half strtol_10 strtol_1
        EXIT_SUCCESS_def)

text \<open>What the validation does reject, shown on three command lines.\<close>

lemma main_rejects_examples:
  "main libc_strtod libc_strtol [''bond_pricer'', ''1000'', ''0.5''] =
     \<lparr>exit_code = 1,
      stderr_text = ''Usage: bond_pricer <face_value> <coupon_rate> <ytm> <years> <frequency>'',
      calculated = None\<rparr>"
  "main libc_strtod libc_strtol [''bond_pricer'', ''1000'', ''2'', ''0.25'', ''10'', ''1''] =
     \<lparr>exit_code = 1,
      stderr_text = ''Error: Invalid coupon rate. Must be between 0 and 1.'',
      calculated = None\<rparr>"
  "main libc_strtod libc_strtol [''bond_pricer'', ''1000'', ''0.5'', ''0.25'', ''10'', ''3''] =
     \<lparr>exit_code = 1,
      stderr_text = ''Error: Invalid frequency. Must be 1, 2, 4, or 12.'',
      calculated = None\<rparr>"
  by (simp_all add: main_def parse_arguments_def strtod_1000 strtod_2 strtod_half strtod_quarter
        strtol_10 libc_strtol_def is_space_def is_digit_def digits_value_def digit_value_def
        LONG_MAX_def LONG_MIN_def EXIT_FAILURE_def error_message_def program_name_def)

end
